theory Spec2Isabelle
  imports Complex_Main "HOL-Library.Multiset" "HOL-Library.Word"
begin

section \<open>Values exchanged with the client\<close>

text \<open>
  Request bodies and response bodies are JSON documents. A JavaScript object is kept as the
  list of its own properties in \<^verbatim>\<open>Object.keys\<close> order; reading a property is a lookup
  in that list and \<open>None\<close> stands for \<^verbatim>\<open>undefined\<close>. Strings are lists of characters
  whose code lies in the range 0..255.
\<close>

datatype json =
    JNull
  | JBool bool
  | JNum int
  | JStr string
  | JArr "json list"
  | JObj "(string \<times> json) list"

text \<open>\<^verbatim>\<open>res.status(code).json(payload)\<close>: the only way a handler of this program answers.\<close>

record response =
  status :: nat
  body :: json

definition json_response :: "nat \<Rightarrow> json \<Rightarrow> response" where
  "json_response code payload = \<lparr>status = code, body = payload\<rparr>"

definition error_body :: "string \<Rightarrow> json" where
  "error_body msg = JObj [(''error'', JStr msg)]"

subsection \<open>String helpers of the JavaScript runtime\<close>

text \<open>
  \<^verbatim>\<open>String.prototype.split(" ")\<close> cuts at every single separator character and keeps
  empty pieces, so the result always has one more element than the string has separators.
\<close>

fun js_split :: "char \<Rightarrow> string \<Rightarrow> string list" where
  "js_split sep [] = [[]]"
| "js_split sep (c # cs) =
     (if c = sep then [] # js_split sep cs
      else (case js_split sep cs of
              [] \<Rightarrow> [[c]]
            | p # ps \<Rightarrow> (c # p) # ps))"

text \<open>
  \<^verbatim>\<open>String.prototype.trim\<close> removes white space and line terminators from both ends; in
  the character range modelled these are TAB, LF, VT, FF, CR, SPACE and NBSP.
\<close>

definition is_white_space :: "char \<Rightarrow> bool" where
  "is_white_space c = (of_char c \<in> {9::nat, 10, 11, 12, 13, 32, 160})"

definition js_trim :: "string \<Rightarrow> string" where
  "js_trim s = rev (dropWhile is_white_space (rev (dropWhile is_white_space s)))"

text \<open>\<^verbatim>\<open>Array.prototype.join\<close>.\<close>

fun js_join :: "string \<Rightarrow> string list \<Rightarrow> string" where
  "js_join sep [] = []"
| "js_join sep [x] = x"
| "js_join sep (x # y # ys) = x @ sep @ js_join sep (y # ys)"

section \<open>Access guard (middleware/authMiddleware.js)\<close>

text \<open>
  \<^verbatim>\<open>jwt.verify(token, config.jwtSecret)\<close> belongs to the jsonwebtoken library and is a
  parameter of the model: it either throws one of the library's errors or returns the
  decoded payload. A payload is a map from claim names to numeric claims, so
  \<^verbatim>\<open>payload.userId\<close> is \<open>payload ''userId''\<close>, and \<open>None\<close> when the claim is absent.
\<close>

datatype jwt_error = TokenExpiredError | JsonWebTokenError | NotBeforeError

type_synonym jwt_payload = "string \<rightharpoonup> int"

type_synonym jwt_verify = "string \<Rightarrow> jwt_error + jwt_payload"

text \<open>\<^verbatim>\<open>req.user\<close>, the identity the guard attaches.\<close>

record user =
  userId :: "int option"

text \<open>
  The guard either answers the request itself (\<open>Rejected\<close>) or sets \<^verbatim>\<open>req.user\<close> and
  calls \<^verbatim>\<open>next()\<close> (\<open>Next\<close>). \<^verbatim>\<open>req.headers.authorization\<close> is \<open>None\<close> when the header
  is absent; the empty string is falsy as well.
\<close>

datatype guard = Rejected response | Next user

definition authMiddleware :: "jwt_verify \<Rightarrow> string option \<Rightarrow> guard" where
  "authMiddleware verify authHeader =
     (case authHeader of
        None \<Rightarrow> Rejected (json_response 401 (error_body ''Missing Authorization header.''))
      | Some h \<Rightarrow>
          if h = [] then
            Rejected (json_response 401 (error_body ''Missing Authorization header.''))
          else
            let parts = js_split CHR '' '' h in
            if length parts \<noteq> 2 \<or> parts ! 0 \<noteq> ''Bearer'' then
              Rejected (json_response 401
                (error_body ''Authorization header must be in 'Bearer <token>' format.''))
            else
              (case verify (parts ! 1) of
                 Inr payload \<Rightarrow> Next \<lparr>userId = payload ''userId''\<rparr>
               | Inl err \<Rightarrow>
                   Rejected (json_response 401 (error_body ''Invalid or expired token.''))))"

section \<open>Validation layer (schemas/taskSchemas.js)\<close>

text \<open>
  The schemas are built with the zod library. A zod parser reports issues to a shared list
  and returns either a value or the marker INVALID. Here a parse yields the issues it added,
  in order, and \<open>Some\<close> value or \<open>None\<close> for INVALID; the parse status is "valid" exactly
  when a value comes back and no issue was added. An issue carries the path of the
  offending property and a message.
\<close>

record issue =
  path :: "string list"
  message :: string

type_synonym 'a parse = "issue list \<times> 'a option"

text \<open>zod's name for the type of the input, used in its default messages.\<close>

fun parsed_type :: "json option \<Rightarrow> string" where
  "parsed_type None = ''undefined''"
| "parsed_type (Some JNull) = ''null''"
| "parsed_type (Some (JBool b)) = ''boolean''"
| "parsed_type (Some (JNum n)) = ''number''"
| "parsed_type (Some (JStr s)) = ''string''"
| "parsed_type (Some (JArr xs)) = ''array''"
| "parsed_type (Some (JObj kvs)) = ''object''"

text \<open>
  Message of an \<^verbatim>\<open>invalid_type\<close> issue: \<^verbatim>\<open>required_error\<close> applies to an undefined input,
  \<^verbatim>\<open>invalid_type_error\<close> to any other input, zod's default text otherwise.
\<close>

definition invalid_type_message ::
  "string option \<Rightarrow> string option \<Rightarrow> string \<Rightarrow> json option \<Rightarrow> string" where
  "invalid_type_message required_error invalid_type_error expected input =
     (case input of
        None \<Rightarrow> (case required_error of Some m \<Rightarrow> m | None \<Rightarrow> ''Required'')
      | Some v \<Rightarrow>
          (case invalid_type_error of
             Some m \<Rightarrow> m
           | None \<Rightarrow> ''Expected '' @ expected @ '', received '' @ parsed_type input))"

text \<open>
  The checks chained on a string schema run in the order written: \<^verbatim>\<open>.trim()\<close> replaces the
  value, \<^verbatim>\<open>.min(n, msg)\<close> adds an issue when the current value is shorter than \<open>n\<close>.
\<close>

datatype string_check = Trim | Min nat string

fun run_checks :: "string_check list \<Rightarrow> string list \<Rightarrow> string \<Rightarrow> issue list \<times> string" where
  "run_checks [] p s = ([], s)"
| "run_checks (Trim # cs) p s = run_checks cs p (js_trim s)"
| "run_checks (Min n msg # cs) p s =
     (let r = run_checks cs p s in
      if length s < n then (\<lparr>path = p, message = msg\<rparr> # fst r, snd r) else r)"

definition zod_string ::
  "string option \<Rightarrow> string option \<Rightarrow> string_check list \<Rightarrow> string list \<Rightarrow> json option \<Rightarrow> string parse"
  where
  "zod_string required_error invalid_type_error checks p input =
     (case input of
        Some (JStr s) \<Rightarrow> (let r = run_checks checks p s in (fst r, Some (snd r)))
      | _ \<Rightarrow>
          ([\<lparr>path = p,
             message = invalid_type_message required_error invalid_type_error ''string'' input\<rparr>],
           None))"

definition zod_boolean ::
  "string option \<Rightarrow> string option \<Rightarrow> string list \<Rightarrow> json option \<Rightarrow> bool parse" where
  "zod_boolean required_error invalid_type_error p input =
     (case input of
        Some (JBool b) \<Rightarrow> ([], Some b)
      | _ \<Rightarrow>
          ([\<lparr>path = p,
             message = invalid_type_message required_error invalid_type_error ''boolean'' input\<rparr>],
           None))"

text \<open>\<^verbatim>\<open>.optional()\<close>: an undefined input is accepted as it is.\<close>

definition zod_optional ::
  "(string list \<Rightarrow> json option \<Rightarrow> 'a parse) \<Rightarrow> string list \<Rightarrow> json option \<Rightarrow> 'a option parse"
  where
  "zod_optional inner p input =
     (case input of
        None \<Rightarrow> ([], Some None)
      | Some v \<Rightarrow> (let r = inner p input in (fst r, map_option Some (snd r))))"

text \<open>
  \<^verbatim>\<open>.strict()\<close>: the own keys of the input that the shape does not declare give one issue,
  at the path of the object itself.
\<close>

definition quote_key :: "string \<Rightarrow> string" where
  "quote_key k = [CHR 0x27] @ k @ [CHR 0x27]"

definition unrecognized_keys :: "string list \<Rightarrow> (string \<times> json) list \<Rightarrow> issue list" where
  "unrecognized_keys shape kvs =
     (let extraKeys = filter (\<lambda>k. k \<notin> set shape) (map fst kvs) in
      if extraKeys = [] then []
      else [\<lparr>path = [],
             message = ''Unrecognized key(s) in object: '' @ js_join '', '' (map quote_key extraKeys)\<rparr>])"

text \<open>
  \<^verbatim>\<open>.refine(check, {message, path})\<close>: runs on the value of the inner parse unless that
  parse was INVALID, and adds its issue when the check fails.
\<close>

definition zod_refine :: "('a \<Rightarrow> bool) \<Rightarrow> issue \<Rightarrow> 'a parse \<Rightarrow> 'a parse" where
  "zod_refine check iss r =
     (case snd r of
        None \<Rightarrow> r
      | Some v \<Rightarrow> if check v then r else (fst r @ [iss], Some v))"

text \<open>\<^verbatim>\<open>safeParse\<close>: success needs a value and no issue at all.\<close>

definition safeParse :: "'a parse \<Rightarrow> issue list + 'a" where
  "safeParse r =
     (case snd r of
        Some v \<Rightarrow> if fst r = [] then Inr v else Inl (fst r)
      | None \<Rightarrow> Inl (fst r))"

subsection \<open>createTaskSchema\<close>

record create_data =
  new_title :: string
  new_description :: "string option"

definition create_object :: "json \<Rightarrow> create_data parse" where
  "create_object input =
     (case input of
        JObj kvs \<Rightarrow>
          (let t = zod_string (Some ''Title is required.'') None
                     [Trim, Min 1 ''Title cannot be empty.''] [''title''] (map_of kvs ''title'');
               d = zod_optional (zod_string None None [Trim])
                     [''description''] (map_of kvs ''description'');
               issues = fst t @ fst d @ unrecognized_keys [''title'', ''description''] kvs
           in (case (snd t, snd d) of
                 (Some tv, Some dv) \<Rightarrow>
                   (issues, Some \<lparr>new_title = tv, new_description = dv\<rparr>)
               | _ \<Rightarrow> (issues, None)))
      | _ \<Rightarrow>
          ([\<lparr>path = [],
             message = invalid_type_message None None ''object'' (Some input)\<rparr>], None))"

definition createTaskSchema :: "json \<Rightarrow> issue list + create_data" where
  "createTaskSchema input = safeParse (create_object input)"

subsection \<open>updateTaskSchema\<close>

text \<open>
  The parsed update object holds a property only for the fields the client sent, so
  \<^verbatim>\<open>Object.keys(data)\<close> lists the fields that are not \<open>None\<close>.
\<close>

record update_data =
  upd_title :: "string option"
  upd_description :: "string option"
  upd_completed :: "bool option"

definition object_keys :: "update_data \<Rightarrow> string list" where
  "object_keys d =
     (if upd_title d \<noteq> None then [''title''] else []) @
     (if upd_description d \<noteq> None then [''description''] else []) @
     (if upd_completed d \<noteq> None then [''completed''] else [])"

definition form_issue :: issue where
  "form_issue =
     \<lparr>path = [''_form''], message = ''At least one field is required to update a task.''\<rparr>"

text \<open>The strict object of the three optional fields, before the refinement.\<close>

definition update_object :: "json \<Rightarrow> update_data parse" where
  "update_object input =
     (case input of
        JObj kvs \<Rightarrow>
          (let t = zod_optional
                     (zod_string None (Some ''Title must be a string.'')
                        [Trim, Min 1 ''Title cannot be empty.''])
                     [''title''] (map_of kvs ''title'');
               d = zod_optional
                     (zod_string None (Some ''Description must be a string.'')
                        [Trim, Min 1 ''Description cannot be empty''])
                     [''description''] (map_of kvs ''description'');
               c = zod_optional
                     (zod_boolean None (Some ''Completed must be true or false.''))
                     [''completed''] (map_of kvs ''completed'');
               issues = fst t @ fst d @ fst c
                        @ unrecognized_keys [''title'', ''description'', ''completed''] kvs
           in (case (snd t, snd d, snd c) of
                 (Some tv, Some dv, Some cv) \<Rightarrow>
                   (issues,
                    Some \<lparr>upd_title = tv, upd_description = dv, upd_completed = cv\<rparr>)
               | _ \<Rightarrow> (issues, None)))
      | _ \<Rightarrow>
          ([\<lparr>path = [],
             message = invalid_type_message None None ''object'' (Some input)\<rparr>], None))"

definition updateTaskSchema :: "json \<Rightarrow> issue list + update_data" where
  "updateTaskSchema input =
     safeParse
       (zod_refine (\<lambda>d. length (object_keys d) > 0) form_issue (update_object input))"

section \<open>Task storage (the tasks table reached through models/db.js)\<close>

text \<open>
  Every \<^verbatim>\<open>pool.query\<close> of routes/tasks.js is modelled by the meaning of its SQL statement
  on a table of rows. A query whose promise rejects (the flag \<open>available\<close> is off, or the
  statement is ill-formed) is an error value, which the handlers' \<^verbatim>\<open>catch\<close> blocks receive.
  A time stamp is a natural number, and \<open>None\<close> in a nullable column is NULL.
\<close>

text \<open>
  Modelled from the spec: the definition of the table \<^verbatim>\<open>tasks\<close> is not part of the
  sources. Its rows have the attributes of a Task in the data model of the specification.
  The identifier column is an INTEGER column, as a serial key is: it holds 32-bit signed
  values, so \<open>task_id\<close> of a row lies between -2147483648 and 2147483647, and the
  sequence that feeds it has the same type.
\<close>

record task =
  id_col :: "32 word"
  user_id :: "int option"
  title :: string
  description :: "string option"
  completed :: bool
  created_at :: nat

definition task_id :: "task \<Rightarrow> int" where
  "task_id t = sint (id_col t)"

record database =
  tasks :: "task list"
  id_seq :: "32 word"
  available :: bool

definition next_id :: "database \<Rightarrow> int" where
  "next_id db = sint (id_seq db)"

record error =
  statusCode :: "nat option"
  err_message :: string

definition connection_error :: error where
  "connection_error = \<lparr>statusCode = None, err_message = ''Connection terminated unexpectedly''\<rparr>"

definition syntax_error :: error where
  "syntax_error = \<lparr>statusCode = None, err_message = ''syntax error at or near WHERE''\<rparr>"

definition out_of_range_error :: error where
  "out_of_range_error =
     \<lparr>statusCode = None, err_message = ''value is out of range for type integer''\<rparr>"

text \<open>
  A parameter compared with the identifier column is converted to the column's type. The
  server rejects the statement when the value is no 32-bit signed integer.
\<close>

definition fits_integer :: "int \<Rightarrow> bool" where
  "fits_integer n = (- 2147483648 \<le> n \<and> n \<le> 2147483647)"

text \<open>
  SQL comparison \<^verbatim>\<open>column = $n\<close>: never true when either side is NULL. The driver sends
  an undefined parameter as NULL.
\<close>

definition sql_eq :: "int option \<Rightarrow> int option \<Rightarrow> bool" where
  "sql_eq a b = (case (a, b) of (Some x, Some y) \<Rightarrow> x = y | _ \<Rightarrow> False)"

text \<open>
  \<^verbatim>\<open>SELECT id, title, description, completed, created_at FROM tasks WHERE user_id = $1
  ORDER BY created_at DESC\<close>
\<close>

definition order_by_created_at_desc :: "task list \<Rightarrow> task list" where
  "order_by_created_at_desc rows = rev (sort_key created_at rows)"

definition select_tasks :: "int option \<Rightarrow> database \<Rightarrow> error + task list" where
  "select_tasks uid db =
     (if \<not> available db then Inl connection_error
      else Inr (order_by_created_at_desc (filter (\<lambda>t. sql_eq (user_id t) uid) (tasks db))))"

text \<open>
  \<^verbatim>\<open>INSERT INTO tasks (user_id, title, description) VALUES ($1, $2, $3) RETURNING ...\<close>
\<close>

text \<open>
  Modelled from the spec: the definition of the table \<^verbatim>\<open>tasks\<close> is not part of the
  sources, so the values of the columns the statement leaves out follow the data model of
  the specification: the identifier is the next value of the table's sequence,
  \<open>completed\<close> defaults to false, and \<open>created_at\<close> is the time \<open>now\<close> of the insertion.
\<close>

definition insert_task ::
  "nat \<Rightarrow> int option \<Rightarrow> string \<Rightarrow> string option \<Rightarrow> database \<Rightarrow> error + (task list \<times> database)"
  where
  "insert_task now uid ttl descr db =
     (if \<not> available db then Inl connection_error
      else
        let row = \<lparr>id_col = id_seq db, user_id = uid, title = ttl, description = descr,
                   completed = False, created_at = now\<rparr>
        in Inr ([row], db\<lparr>tasks := tasks db @ [row], id_seq := id_seq db + 1\<rparr>))"

text \<open>
  \<^verbatim>\<open>UPDATE tasks SET <updates> WHERE user_id = $k AND id = $k+1 RETURNING ...\<close>

  The column assignments are kept together with the values bound to their parameters.
  An empty assignment list leaves \<^verbatim>\<open>SET\<close> without operand, which the server rejects
  when it parses the statement; an id parameter that does not fit the column is rejected
  when the parameters are bound.
\<close>

datatype assignment = SetTitle string | SetDescription string | SetCompleted bool

fun assign :: "task \<Rightarrow> assignment \<Rightarrow> task" where
  "assign t (SetTitle s) = t\<lparr>title := s\<rparr>"
| "assign t (SetDescription s) = t\<lparr>description := Some s\<rparr>"
| "assign t (SetCompleted b) = t\<lparr>completed := b\<rparr>"

definition update_tasks ::
  "assignment list \<Rightarrow> int option \<Rightarrow> int \<Rightarrow> database \<Rightarrow> error + (task list \<times> database)" where
  "update_tasks updates uid taskId db =
     (if \<not> available db then Inl connection_error
      else if updates = [] then Inl syntax_error
      else if \<not> fits_integer taskId then Inl out_of_range_error
      else
        let hit = (\<lambda>t. sql_eq (user_id t) uid \<and> task_id t = taskId)
        in Inr (map (\<lambda>t. foldl assign t updates) (filter hit (tasks db)),
                db\<lparr>tasks := map (\<lambda>t. if hit t then foldl assign t updates else t) (tasks db)\<rparr>))"

text \<open>\<^verbatim>\<open>DELETE FROM tasks WHERE user_id = $1 AND id = $2 RETURNING id\<close>\<close>

definition delete_tasks ::
  "int option \<Rightarrow> int \<Rightarrow> database \<Rightarrow> error + (task list \<times> database)" where
  "delete_tasks uid taskId db =
     (if \<not> available db then Inl connection_error
      else if \<not> fits_integer taskId then Inl out_of_range_error
      else
        let hit = (\<lambda>t. sql_eq (user_id t) uid \<and> task_id t = taskId)
        in Inr (filter hit (tasks db), db\<lparr>tasks := filter (\<lambda>t. \<not> hit t) (tasks db)\<rparr>))"

section \<open>Task routes (routes/tasks.js)\<close>

text \<open>A returned row as the JSON object the client receives (the owner is not selected).\<close>

definition row_json :: "task \<Rightarrow> json" where
  "row_json t =
     JObj [(''id'', JNum (task_id t)),
           (''title'', JStr (title t)),
           (''description'', (case description t of None \<Rightarrow> JNull | Some d \<Rightarrow> JStr d)),
           (''completed'', JBool (completed t)),
           (''created_at'', JNum (int (created_at t)))]"

definition format_issue :: "issue \<Rightarrow> json" where
  "format_issue i =
     JObj [(''field'',
            JStr (if length (path i) > 0 then js_join ''.'' (path i) else ''unknown'')),
           (''message'', JStr (message i))]"

definition formatZodError :: "issue list \<Rightarrow> json" where
  "formatZodError issues = JArr (map format_issue issues)"

definition invalid_input :: "json \<Rightarrow> response" where
  "invalid_input details =
     json_response 400 (JObj [(''error'', JStr ''Invalid input''), (''details'', details)])"

text \<open>
  \<^verbatim>\<open>Number(rawValue)\<close> is the runtime's conversion of a string to a number and is a
  parameter of the model. Its result is NaN, an infinity or a finite value; every finite
  double is a rational number.
\<close>

datatype js_number = NaN | PosInfinity | NegInfinity | Finite rat

definition Number_isInteger :: "js_number \<Rightarrow> bool" where
  "Number_isInteger x = (case x of Finite q \<Rightarrow> of_int \<lfloor>q\<rfloor> = q | _ \<Rightarrow> False)"

definition le_zero :: "js_number \<Rightarrow> bool" where
  "le_zero x = (case x of Finite q \<Rightarrow> q \<le> 0 | NegInfinity \<Rightarrow> True | _ \<Rightarrow> False)"

definition integer_value :: "js_number \<Rightarrow> int" where
  "integer_value x = (case x of Finite q \<Rightarrow> \<lfloor>q\<rfloor> | _ \<Rightarrow> 0)"

definition validatePositiveIntParam ::
  "(string \<Rightarrow> js_number) \<Rightarrow> string \<Rightarrow> string \<Rightarrow> response + int" where
  "validatePositiveIntParam Number name rawValue =
     (let parsed = Number rawValue in
      if \<not> Number_isInteger parsed \<or> le_zero parsed then
        Inl (invalid_input
               (JArr [JObj [(''field'', JStr name),
                            (''message'', JStr (name @ '' must be a positive integer.''))]]))
      else Inr (integer_value parsed))"

text \<open>middleware/errorHandlers.js: where \<^verbatim>\<open>next(err)\<close> ends.\<close>

definition errorHandler :: "error \<Rightarrow> response" where
  "errorHandler err =
     (let code = (case statusCode err of
                    Some c \<Rightarrow> if c \<noteq> 0 then c else 500
                  | None \<Rightarrow> 500)
      in json_response code
           (error_body (if code = 500 then ''Internal Server Error'' else err_message err)))"

text \<open>GET /api/tasks\<close>

definition get_tasks :: "user \<Rightarrow> database \<Rightarrow> response" where
  "get_tasks u db =
     (case select_tasks (userId u) db of
        Inr rows \<Rightarrow> json_response 200 (JObj [(''tasks'', JArr (map row_json rows))])
      | Inl err \<Rightarrow> json_response 500 (error_body ''Failed to fetch tasks.''))"

text \<open>
  POST /api/tasks. In \<open>normalizedDescription\<close> the \<open>None\<close> that is matched stands for
  \<^verbatim>\<open>undefined\<close> and the \<open>None\<close> that is produced for \<^verbatim>\<open>null\<close>, the SQL NULL stored in
  the row.
\<close>

definition post_task :: "nat \<Rightarrow> user \<Rightarrow> json \<Rightarrow> database \<Rightarrow> response \<times> database" where
  "post_task now u req_body db =
     (case createTaskSchema req_body of
        Inl issues \<Rightarrow> (invalid_input (formatZodError issues), db)
      | Inr d \<Rightarrow>
          (let normalizedDescription =
                 (case new_description d of Some s \<Rightarrow> Some s | None \<Rightarrow> None) in
           case insert_task now (userId u) (new_title d) normalizedDescription db of
             Inr (rows, db') \<Rightarrow> (json_response 201 (JObj [(''task'', row_json (rows ! 0))]), db')
           | Inl err \<Rightarrow> (json_response 500 (error_body ''Failed to create task.''), db)))"

text \<open>PUT /api/tasks/:id\<close>

definition addUpdate :: "assignment \<Rightarrow> assignment list \<Rightarrow> assignment list" where
  "addUpdate a updates = updates @ [a]"

definition build_updates :: "update_data \<Rightarrow> assignment list" where
  "build_updates d =
     (let u0 = [];
          u1 = (case upd_title d of Some t \<Rightarrow> addUpdate (SetTitle t) u0 | None \<Rightarrow> u0);
          u2 = (case upd_description d of
                  Some s \<Rightarrow> addUpdate (SetDescription s) u1 | None \<Rightarrow> u1);
          u3 = (case upd_completed d of
                  Some b \<Rightarrow> addUpdate (SetCompleted b) u2 | None \<Rightarrow> u2)
      in u3)"

definition put_task ::
  "(string \<Rightarrow> js_number) \<Rightarrow> user \<Rightarrow> string \<Rightarrow> json \<Rightarrow> database \<Rightarrow> response \<times> database" where
  "put_task Number u raw_id req_body db =
     (case validatePositiveIntParam Number ''id'' raw_id of
        Inl resp \<Rightarrow> (resp, db)
      | Inr taskId \<Rightarrow>
          (case updateTaskSchema req_body of
             Inl issues \<Rightarrow> (invalid_input (formatZodError issues), db)
           | Inr d \<Rightarrow>
               (case update_tasks (build_updates d) (userId u) taskId db of
                  Inr (rows, db') \<Rightarrow>
                    if length rows = 0 then
                      (json_response 404 (error_body ''Task not found.''), db')
                    else (json_response 200 (JObj [(''task'', row_json (rows ! 0))]), db')
                | Inl err \<Rightarrow> (errorHandler err, db))))"

text \<open>DELETE /api/tasks/:id\<close>

definition delete_task ::
  "(string \<Rightarrow> js_number) \<Rightarrow> user \<Rightarrow> string \<Rightarrow> database \<Rightarrow> response \<times> database" where
  "delete_task Number u raw_id db =
     (case validatePositiveIntParam Number ''id'' raw_id of
        Inl resp \<Rightarrow> (resp, db)
      | Inr taskId \<Rightarrow>
          (case delete_tasks (userId u) taskId db of
             Inr (rows, db') \<Rightarrow>
               if length rows = 0 then
                 (json_response 404 (error_body ''Task not found.''), db')
               else
                 (json_response 200
                    (JObj [(''message'', JStr ''Task deleted.''),
                           (''taskId'', JNum (task_id (rows ! 0)))]), db')
           | Inl err \<Rightarrow> (json_response 500 (error_body ''Failed to delete task.''), db)))"

text \<open>
  The router: \<^verbatim>\<open>router.use(authMiddleware)\<close> runs the guard before every task route, and a
  handler runs only when the guard called \<^verbatim>\<open>next()\<close>.
\<close>

datatype route =
    GetTasks
  | PostTask json
  | PutTask string json
  | DeleteTask string

record request =
  authorization :: "string option"
  route :: route

definition tasks_router ::
  "jwt_verify \<Rightarrow> (string \<Rightarrow> js_number) \<Rightarrow> nat \<Rightarrow> request \<Rightarrow> database \<Rightarrow> response \<times> database"
  where
  "tasks_router verify Number now req db =
     (case authMiddleware verify (authorization req) of
        Rejected resp \<Rightarrow> (resp, db)
      | Next u \<Rightarrow>
          (case route req of
             GetTasks \<Rightarrow> (get_tasks u db, db)
           | PostTask b \<Rightarrow> post_task now u b db
           | PutTask raw_id b \<Rightarrow> put_task Number u raw_id b db
           | DeleteTask raw_id \<Rightarrow> delete_task Number u raw_id db))"

section \<open>Sample data\<close>

text \<open>
  Concrete stand-ins for the two library parameters and a small table, on which the
  theorems below are exercised. \<open>sample_verify\<close> accepts three tokens (two carry a
  \<^verbatim>\<open>userId\<close> claim, one does not), reports one token as expired and every other token as
  badly signed. \<open>sample_Number\<close> converts strings of decimal digits and yields NaN on
  anything else.
\<close>

definition sample_verify :: jwt_verify where
  "sample_verify tok =
     (if tok = ''alice'' then Inr [''userId'' \<mapsto> 1]
      else if tok = ''bob'' then Inr [''userId'' \<mapsto> 2]
      else if tok = ''anonymous'' then Inr Map.empty
      else if tok = ''stale'' then Inl TokenExpiredError
      else Inl JsonWebTokenError)"

definition is_digit :: "char \<Rightarrow> bool" where
  "is_digit c = (48 \<le> (of_char c :: nat) \<and> (of_char c :: nat) \<le> 57)"

definition sample_Number :: "string \<Rightarrow> js_number" where
  "sample_Number s =
     (if s \<noteq> [] \<and> list_all is_digit s
      then Finite (of_nat (foldl (\<lambda>n c. 10 * n + (of_char c - 48)) 0 s))
      else NaN)"

definition sample_db :: database where
  "sample_db =
     \<lparr>tasks =
        [\<lparr>id_col = 1, user_id = Some 1, title = ''buy milk'', description = None,
          completed = False, created_at = 10\<rparr>,
         \<lparr>id_col = 2, user_id = Some 2, title = ''walk dog'', description = Some ''park'',
          completed = False, created_at = 20\<rparr>,
         \<lparr>id_col = 3, user_id = Some 1, title = ''file taxes'', description = None,
          completed = True, created_at = 30\<rparr>],
      id_seq = 4, available = True\<rparr>"

definition walk_dog :: task where
  "walk_dog = \<lparr>id_col = 2, user_id = Some 2, title = ''walk dog'', description = Some ''park'',
               completed = False, created_at = 20\<rparr>"

definition sample_db_without_2 :: database where
  "sample_db_without_2 =
     sample_db\<lparr>tasks := filter (\<lambda>t. task_id t \<noteq> 2) (tasks sample_db)\<rparr>"

section \<open>Splitting the Authorization header\<close>

lemma js_split_not_Nil: "js_split sep s \<noteq> []"
  by (induction s) (auto split: list.splits)

lemma js_split_single: "js_split sep s = [a] \<longleftrightarrow> s = a \<and> sep \<notin> set a"
proof (induction s arbitrary: a)
  case Nil
  then show ?case by auto
next
  case (Cons c cs)
  show ?case
  proof (cases "c = sep")
    case True
    then show ?thesis by (auto simp: js_split_not_Nil)
  next
    case False
    show ?thesis
    proof (cases "js_split sep cs")
      case Nil
      then show ?thesis by (simp add: js_split_not_Nil)
    next
      case (Cons p ps)
      have "js_split sep (c # cs) = [a] \<longleftrightarrow> (\<exists>a'. a = c # a' \<and> js_split sep cs = [a'])"
        using False Cons by auto
      also have "\<dots> \<longleftrightarrow> (\<exists>a'. a = c # a' \<and> cs = a' \<and> sep \<notin> set a')"
        using Cons.IH by simp
      also have "\<dots> \<longleftrightarrow> c # cs = a \<and> sep \<notin> set a"
        using False by (cases a) auto
      finally show ?thesis .
    qed
  qed
qed


lemma js_split_pair:
  "js_split sep s = [a, b] \<longleftrightarrow> s = a @ sep # b \<and> sep \<notin> set a \<and> sep \<notin> set b"
proof (induction s arbitrary: a)
  case Nil
  then show ?case by auto
next
  case (Cons c cs)
  show ?case
  proof (cases "c = sep")
    case True
    have "js_split sep (c # cs) = [a, b] \<longleftrightarrow> a = [] \<and> js_split sep cs = [b]"
      using True by auto
    also have "\<dots> \<longleftrightarrow> a = [] \<and> cs = b \<and> sep \<notin> set b"
      by (simp add: js_split_single)
    also have "\<dots> \<longleftrightarrow> c # cs = a @ sep # b \<and> sep \<notin> set a \<and> sep \<notin> set b"
      using True by (cases a) auto
    finally show ?thesis .
  next
    case False
    show ?thesis
    proof (cases "js_split sep cs")
      case Nil
      then show ?thesis by (simp add: js_split_not_Nil)
    next
      case (Cons p ps)
      have "js_split sep (c # cs) = [a, b] \<longleftrightarrow> (\<exists>a'. a = c # a' \<and> js_split sep cs = [a', b])"
        using False Cons by auto
      also have "\<dots> \<longleftrightarrow> (\<exists>a'. a = c # a' \<and> cs = a' @ sep # b \<and> sep \<notin> set a' \<and> sep \<notin> set b)"
        using Cons.IH by simp
      also have "\<dots> \<longleftrightarrow> c # cs = a @ sep # b \<and> sep \<notin> set a \<and> sep \<notin> set b"
        using False by (cases a) auto
      finally show ?thesis .
    qed
  qed
qed

lemma length_two: "length xs = 2 \<longleftrightarrow> (\<exists>a b. xs = [a, b])"
  by (auto simp: length_Suc_conv numeral_2_eq_2)

lemma bearer_parts:
  assumes "CHR '' '' \<notin> set tok"
  shows "js_split CHR '' '' (''Bearer '' @ tok) = [''Bearer'', tok]"
proof -
  have "''Bearer '' @ tok = ''Bearer'' @ CHR '' '' # tok" by simp
  moreover have "CHR '' '' \<notin> set ''Bearer''" by simp
  ultimately show ?thesis using assms js_split_pair by blast
qed

lemma bearer_shape:
  "(length (js_split CHR '' '' h) = 2 \<and> js_split CHR '' '' h ! 0 = ''Bearer'')
   \<longleftrightarrow> (\<exists>tok. h = ''Bearer '' @ tok \<and> CHR '' '' \<notin> set tok)"
proof
  assume L: "length (js_split CHR '' '' h) = 2 \<and> js_split CHR '' '' h ! 0 = ''Bearer''"
  then have "\<exists>a b. js_split CHR '' '' h = [a, b]"
    by (simp add: length_two)
  then obtain a b where ab: "js_split CHR '' '' h = [a, b]"
    by (elim exE)
  with L have a: "a = ''Bearer''" by simp
  from ab have "h = a @ CHR '' '' # b \<and> CHR '' '' \<notin> set b"
    by (simp add: js_split_pair)
  with a have "h = ''Bearer '' @ b \<and> CHR '' '' \<notin> set b" by simp
  then show "\<exists>tok. h = ''Bearer '' @ tok \<and> CHR '' '' \<notin> set tok" by (rule exI)
next
  assume "\<exists>tok. h = ''Bearer '' @ tok \<and> CHR '' '' \<notin> set tok"
  then obtain tok where t: "h = ''Bearer '' @ tok" "CHR '' '' \<notin> set tok" by (elim exE conjE)
  then have "js_split CHR '' '' h = [''Bearer'', tok]"
    using bearer_parts by simp
  then show "length (js_split CHR '' '' h) = 2 \<and> js_split CHR '' '' h ! 0 = ''Bearer''" by simp
qed


section \<open>The access guard\<close>

lemma guard_missing:
  "authHeader = None \<or> authHeader = Some [] \<Longrightarrow>
   authMiddleware verify authHeader =
     Rejected (json_response 401 (error_body ''Missing Authorization header.''))"
  by (auto simp: authMiddleware_def)

lemma guard_wrong_shape:
  assumes "h \<noteq> []" and "\<not> (\<exists>tok. h = ''Bearer '' @ tok \<and> CHR '' '' \<notin> set tok)"
  shows "authMiddleware verify (Some h) =
     Rejected (json_response 401
       (error_body ''Authorization header must be in 'Bearer <token>' format.''))"
proof -
  from assms(2) have "length (js_split CHR '' '' h) \<noteq> 2 \<or> js_split CHR '' '' h ! 0 \<noteq> ''Bearer''"
    using bearer_shape [of h] by blast
  with assms(1) show ?thesis
    by (simp add: authMiddleware_def Let_def)
qed

lemma guard_verify:
  assumes "CHR '' '' \<notin> set tok"
  shows "authMiddleware verify (Some (''Bearer '' @ tok)) =
     (case verify tok of
        Inr payload \<Rightarrow> Next \<lparr>userId = payload ''userId''\<rparr>
      | Inl err \<Rightarrow> Rejected (json_response 401 (error_body ''Invalid or expired token.'')))"
proof -
  have "js_split CHR '' '' (''Bearer '' @ tok) = [''Bearer'', tok]"
    using assms by (rule bearer_parts)
  then show ?thesis
    by (simp add: authMiddleware_def Let_def)
qed

lemma guard_rejected_401:
  assumes "authMiddleware verify a = Rejected r"
  shows "status r = 401"
  using assms
  by (auto simp: authMiddleware_def Let_def json_response_def
           split: option.splits if_splits sum.splits)


text \<open>
  C2. A request to a task route whose Authorization header is missing (or empty), is not of
  the two-part shape \<^verbatim>\<open>Bearer <token>\<close>, or carries a token that \<^verbatim>\<open>jwt.verify\<close> refuses,
  is answered by the guard itself with status 401: no identity is attached and the router
  returns the guard's answer with the table untouched, so no handler runs. A request whose
  token verifies gets \<^verbatim>\<open>req.user = { userId: payload.userId }\<close> and reaches the handler of
  its route.
\<close>

theorem access_guard_outcomes:
  "(authHeader = None \<or> authHeader = Some [] \<longrightarrow>
      authMiddleware verify authHeader =
        Rejected (json_response 401 (error_body ''Missing Authorization header.'')))
   \<and> (h \<noteq> [] \<and> \<not> (\<exists>t. h = ''Bearer '' @ t \<and> CHR '' '' \<notin> set t) \<longrightarrow>
      authMiddleware verify (Some h) =
        Rejected (json_response 401
          (error_body ''Authorization header must be in 'Bearer <token>' format.'')))
   \<and> (CHR '' '' \<notin> set bad \<and> verify bad = Inl err \<longrightarrow>
      authMiddleware verify (Some (''Bearer '' @ bad)) =
        Rejected (json_response 401 (error_body ''Invalid or expired token.'')))
   \<and> (CHR '' '' \<notin> set tok \<and> verify tok = Inr payload \<longrightarrow>
      authMiddleware verify (Some (''Bearer '' @ tok)) = Next \<lparr>userId = payload ''userId''\<rparr>)
   \<and> (authMiddleware verify (authorization req) = Rejected resp \<longrightarrow>
      status resp = 401 \<and> tasks_router verify Number now req db = (resp, db))
   \<and> (authMiddleware verify (authorization req') = Next u \<longrightarrow>
      tasks_router verify Number now req' db =
        (case route req' of
           GetTasks \<Rightarrow> (get_tasks u db, db)
         | PostTask b \<Rightarrow> post_task now u b db
         | PutTask raw_id b \<Rightarrow> put_task Number u raw_id b db
         | DeleteTask raw_id \<Rightarrow> delete_task Number u raw_id db))"
proof (intro conjI impI)
  assume "authHeader = None \<or> authHeader = Some []"
  then show "authMiddleware verify authHeader =
      Rejected (json_response 401 (error_body ''Missing Authorization header.''))"
    by (rule guard_missing)
next
  assume "h \<noteq> [] \<and> \<not> (\<exists>t. h = ''Bearer '' @ t \<and> CHR '' '' \<notin> set t)"
  then show "authMiddleware verify (Some h) =
      Rejected (json_response 401
        (error_body ''Authorization header must be in 'Bearer <token>' format.''))"
    using guard_wrong_shape by blast
next
  assume "CHR '' '' \<notin> set bad \<and> verify bad = Inl err"
  then show "authMiddleware verify (Some (''Bearer '' @ bad)) =
      Rejected (json_response 401 (error_body ''Invalid or expired token.''))"
    using guard_verify [of bad verify] by simp
next
  assume "CHR '' '' \<notin> set tok \<and> verify tok = Inr payload"
  then show "authMiddleware verify (Some (''Bearer '' @ tok)) =
      Next \<lparr>userId = payload ''userId''\<rparr>"
    using guard_verify [of tok verify] by simp
next
  assume "authMiddleware verify (authorization req) = Rejected resp"
  then show "status resp = 401"
    by (rule guard_rejected_401)
next
  assume "authMiddleware verify (authorization req) = Rejected resp"
  then show "tasks_router verify Number now req db = (resp, db)"
    by (simp add: tasks_router_def)
next
  assume "authMiddleware verify (authorization req') = Next u"
  then show "tasks_router verify Number now req' db =
      (case route req' of
         GetTasks \<Rightarrow> (get_tasks u db, db)
       | PostTask b \<Rightarrow> post_task now u b db
       | PutTask raw_id b \<Rightarrow> put_task Number u raw_id b db
       | DeleteTask raw_id \<Rightarrow> delete_task Number u raw_id db)"
    by (simp add: tasks_router_def)
qed

theorem access_guard_outcomes_witness:
  "authMiddleware sample_verify None =
     Rejected (json_response 401 (error_body ''Missing Authorization header.''))
   \<and> authMiddleware sample_verify (Some ''Basic alice'') =
     Rejected (json_response 401
       (error_body ''Authorization header must be in 'Bearer <token>' format.''))
   \<and> sample_verify ''stale'' = Inl TokenExpiredError
   \<and> authMiddleware sample_verify (Some ''Bearer stale'') =
     Rejected (json_response 401 (error_body ''Invalid or expired token.''))
   \<and> authMiddleware sample_verify (Some ''Bearer alice'') = Next \<lparr>userId = Some 1\<rparr>
   \<and> tasks_router sample_verify sample_Number 40
        \<lparr>authorization = Some ''Bearer stale'', route = DeleteTask ''1''\<rparr> sample_db =
       (json_response 401 (error_body ''Invalid or expired token.''), sample_db)
   \<and> tasks_router sample_verify sample_Number 40
        \<lparr>authorization = Some ''Bearer alice'', route = GetTasks\<rparr> sample_db =
       (get_tasks \<lparr>userId = Some 1\<rparr> sample_db, sample_db)"
proof -
  note T = access_guard_outcomes [where verify = sample_verify and authHeader = None
      and h = "''Basic alice''" and bad = "''stale''" and err = TokenExpiredError
      and tok = "''alice''" and payload = "[''userId'' \<mapsto> 1]"
      and req = "\<lparr>authorization = Some ''Bearer stale'', route = DeleteTask ''1''\<rparr>"
      and resp = "json_response 401 (error_body ''Invalid or expired token.'')"
      and req' = "\<lparr>authorization = Some ''Bearer alice'', route = GetTasks\<rparr>"
      and u = "\<lparr>userId = Some 1\<rparr>" and Number = sample_Number and now = 40
      and db = sample_db]
  have stale: "sample_verify ''stale'' = Inl TokenExpiredError"
    by (simp add: sample_verify_def)
  have alice: "sample_verify ''alice'' = Inr [''userId'' \<mapsto> 1]"
    by (simp add: sample_verify_def)
  have 1: "authMiddleware sample_verify None =
     Rejected (json_response 401 (error_body ''Missing Authorization header.''))"
    using T by simp
  have 2: "authMiddleware sample_verify (Some ''Basic alice'') =
     Rejected (json_response 401
       (error_body ''Authorization header must be in 'Bearer <token>' format.''))"
    using T by simp
  have 3: "authMiddleware sample_verify (Some ''Bearer stale'') =
     Rejected (json_response 401 (error_body ''Invalid or expired token.''))"
    using T stale by simp
  have 4: "authMiddleware sample_verify (Some ''Bearer alice'') = Next \<lparr>userId = Some 1\<rparr>"
    using T alice by simp
  have 5: "tasks_router sample_verify sample_Number 40
        \<lparr>authorization = Some ''Bearer stale'', route = DeleteTask ''1''\<rparr> sample_db =
       (json_response 401 (error_body ''Invalid or expired token.''), sample_db)"
    using T 3 by simp
  have 6: "tasks_router sample_verify sample_Number 40
        \<lparr>authorization = Some ''Bearer alice'', route = GetTasks\<rparr> sample_db =
       (get_tasks \<lparr>userId = Some 1\<rparr> sample_db, sample_db)"
    using T 4 by simp
  from stale 1 2 3 4 5 6 show ?thesis by simp
qed

section \<open>What a rejected client can tell apart\<close>

text \<open>
  C3, as stated, fails: the guard's rejections do not all carry the same body. A request
  without header and a request with an expired token are both answered 401, with different
  messages.
\<close>

theorem guard_rejections_differ:
  "authMiddleware sample_verify None =
     Rejected \<lparr>status = 401, body = JObj [(''error'', JStr ''Missing Authorization header.'')]\<rparr>
   \<and> authMiddleware sample_verify (Some ''Bearer stale'') =
     Rejected \<lparr>status = 401, body = JObj [(''error'', JStr ''Invalid or expired token.'')]\<rparr>
   \<and> authMiddleware sample_verify None \<noteq> authMiddleware sample_verify (Some ''Bearer stale'')"
proof -
  have 1: "authMiddleware sample_verify None =
     Rejected \<lparr>status = 401, body = JObj [(''error'', JStr ''Missing Authorization header.'')]\<rparr>"
    by (simp add: authMiddleware_def json_response_def error_body_def)
  have "authMiddleware sample_verify (Some (''Bearer '' @ ''stale'')) =
     Rejected \<lparr>status = 401, body = JObj [(''error'', JStr ''Invalid or expired token.'')]\<rparr>"
    by (subst guard_verify) (simp_all add: sample_verify_def json_response_def error_body_def)
  then have 2: "authMiddleware sample_verify (Some ''Bearer stale'') =
     Rejected \<lparr>status = 401, body = JObj [(''error'', JStr ''Invalid or expired token.'')]\<rparr>"
    by simp
  show ?thesis unfolding 1 2 by simp
qed

text \<open>
  C3, amended. Every rejection of the guard has status 401, and its body is fixed by the
  stage of the check that failed: a missing or empty header is answered
  \<open>Missing Authorization header.\<close>, a header that is not of the shape \<open>Bearer <token>\<close>
  is answered \<open>Authorization header must be in 'Bearer <token>' format.\<close>, and a token
  that \<^verbatim>\<open>jwt.verify\<close> refuses is answered \<open>Invalid or expired token.\<close> whatever the
  library's error was. The three answers differ from one another, and there is no fourth.
  So the client learns which stage failed, but not why verification failed.
\<close>

theorem guard_rejection_shape:
  "(authHeader = None \<or> authHeader = Some [] \<longrightarrow>
      authMiddleware verify authHeader =
        Rejected (json_response 401 (error_body ''Missing Authorization header.'')))
   \<and> (h \<noteq> [] \<and> \<not> (\<exists>t. h = ''Bearer '' @ t \<and> CHR '' '' \<notin> set t) \<longrightarrow>
      authMiddleware verify (Some h) =
        Rejected (json_response 401
          (error_body ''Authorization header must be in 'Bearer <token>' format.'')))
   \<and> (CHR '' '' \<notin> set tok \<and> verify tok = Inl e \<longrightarrow>
      authMiddleware verify (Some (''Bearer '' @ tok)) =
        Rejected (json_response 401 (error_body ''Invalid or expired token.'')))
   \<and> json_response 401 (error_body ''Missing Authorization header.'') \<noteq>
       json_response 401
         (error_body ''Authorization header must be in 'Bearer <token>' format.'')
   \<and> json_response 401 (error_body ''Missing Authorization header.'') \<noteq>
       json_response 401 (error_body ''Invalid or expired token.'')
   \<and> json_response 401
         (error_body ''Authorization header must be in 'Bearer <token>' format.'') \<noteq>
       json_response 401 (error_body ''Invalid or expired token.'')
   \<and> (authMiddleware verify a = Rejected r \<longrightarrow>
      status r = 401
      \<and> (body r = error_body ''Missing Authorization header.''
         \<or> body r = error_body ''Authorization header must be in 'Bearer <token>' format.''
         \<or> body r = error_body ''Invalid or expired token.''))
   \<and> (CHR '' '' \<notin> set tok \<and> CHR '' '' \<notin> set tok' \<and> verify tok = Inl e \<and> verify tok' = Inl e' \<longrightarrow>
      authMiddleware verify (Some (''Bearer '' @ tok)) =
        Rejected (json_response 401 (error_body ''Invalid or expired token.''))
      \<and> authMiddleware verify (Some (''Bearer '' @ tok')) =
        authMiddleware verify (Some (''Bearer '' @ tok)))"
proof (intro conjI impI)
  assume "authHeader = None \<or> authHeader = Some []"
  then show "authMiddleware verify authHeader =
      Rejected (json_response 401 (error_body ''Missing Authorization header.''))"
    by (rule guard_missing)
next
  assume "h \<noteq> [] \<and> \<not> (\<exists>t. h = ''Bearer '' @ t \<and> CHR '' '' \<notin> set t)"
  then show "authMiddleware verify (Some h) =
      Rejected (json_response 401
        (error_body ''Authorization header must be in 'Bearer <token>' format.''))"
    using guard_wrong_shape by blast
next
  assume "CHR '' '' \<notin> set tok \<and> verify tok = Inl e"
  then show "authMiddleware verify (Some (''Bearer '' @ tok)) =
      Rejected (json_response 401 (error_body ''Invalid or expired token.''))"
    using guard_verify [of tok verify] by simp
next
  show "json_response 401 (error_body ''Missing Authorization header.'') \<noteq>
       json_response 401
         (error_body ''Authorization header must be in 'Bearer <token>' format.'')"
    by (simp add: json_response_def error_body_def)
next
  show "json_response 401 (error_body ''Missing Authorization header.'') \<noteq>
       json_response 401 (error_body ''Invalid or expired token.'')"
    by (simp add: json_response_def error_body_def)
next
  show "json_response 401
         (error_body ''Authorization header must be in 'Bearer <token>' format.'') \<noteq>
       json_response 401 (error_body ''Invalid or expired token.'')"
    by (simp add: json_response_def error_body_def)
next
  assume "authMiddleware verify a = Rejected r"
  then show "status r = 401" by (rule guard_rejected_401)
next
  assume "authMiddleware verify a = Rejected r"
  then show "body r = error_body ''Missing Authorization header.''
         \<or> body r = error_body ''Authorization header must be in 'Bearer <token>' format.''
         \<or> body r = error_body ''Invalid or expired token.''"
    by (auto simp: authMiddleware_def Let_def json_response_def
             split: option.splits if_splits sum.splits)
next
  assume A: "CHR '' '' \<notin> set tok \<and> CHR '' '' \<notin> set tok' \<and> verify tok = Inl e \<and> verify tok' = Inl e'"
  then show B: "authMiddleware verify (Some (''Bearer '' @ tok)) =
        Rejected (json_response 401 (error_body ''Invalid or expired token.''))"
    using guard_verify [of tok verify] by simp
  from A have "authMiddleware verify (Some (''Bearer '' @ tok')) =
        Rejected (json_response 401 (error_body ''Invalid or expired token.''))"
    using guard_verify [of tok' verify] by simp
  with B show "authMiddleware verify (Some (''Bearer '' @ tok')) =
        authMiddleware verify (Some (''Bearer '' @ tok))"
    by simp
qed

theorem guard_rejection_shape_witness:
  "authMiddleware sample_verify None =
     Rejected (json_response 401 (error_body ''Missing Authorization header.''))
   \<and> authMiddleware sample_verify (Some ''Basic alice'') =
     Rejected (json_response 401
       (error_body ''Authorization header must be in 'Bearer <token>' format.''))
   \<and> status (json_response 401
       (error_body ''Authorization header must be in 'Bearer <token>' format.'')) = 401
   \<and> sample_verify ''stale'' = Inl TokenExpiredError
   \<and> sample_verify ''forged'' = Inl JsonWebTokenError
   \<and> authMiddleware sample_verify (Some ''Bearer stale'') =
       Rejected (json_response 401 (error_body ''Invalid or expired token.''))
   \<and> authMiddleware sample_verify (Some ''Bearer forged'') =
       authMiddleware sample_verify (Some ''Bearer stale'')
   \<and> authMiddleware sample_verify None \<noteq> authMiddleware sample_verify (Some ''Basic alice'')
   \<and> authMiddleware sample_verify None \<noteq> authMiddleware sample_verify (Some ''Bearer stale'')
   \<and> authMiddleware sample_verify (Some ''Basic alice'') \<noteq>
       authMiddleware sample_verify (Some ''Bearer stale'')"
proof -
  note T = guard_rejection_shape [where verify = sample_verify
      and authHeader = None and h = "''Basic alice''"
      and a = "Some ''Basic alice''"
      and r = "json_response 401
         (error_body ''Authorization header must be in 'Bearer <token>' format.'')"
      and tok = "''stale''" and tok' = "''forged''"
      and e = TokenExpiredError and e' = JsonWebTokenError]
  have stale: "sample_verify ''stale'' = Inl TokenExpiredError"
    by (simp add: sample_verify_def)
  have forged: "sample_verify ''forged'' = Inl JsonWebTokenError"
    by (simp add: sample_verify_def)
  have missing: "authMiddleware sample_verify None =
     Rejected (json_response 401 (error_body ''Missing Authorization header.''))"
    using T by simp
  have shape: "authMiddleware sample_verify (Some ''Basic alice'') =
     Rejected (json_response 401
       (error_body ''Authorization header must be in 'Bearer <token>' format.''))"
    using T by simp
  have 1: "status (json_response 401
       (error_body ''Authorization header must be in 'Bearer <token>' format.'')) = 401"
    using T shape by simp
  have 2: "authMiddleware sample_verify (Some ''Bearer stale'') =
       Rejected (json_response 401 (error_body ''Invalid or expired token.''))
     \<and> authMiddleware sample_verify (Some ''Bearer forged'') =
       authMiddleware sample_verify (Some ''Bearer stale'')"
    using T stale forged by simp
  have 3: "json_response 401 (error_body ''Missing Authorization header.'') \<noteq>
       json_response 401
         (error_body ''Authorization header must be in 'Bearer <token>' format.'')"
    and 4: "json_response 401 (error_body ''Missing Authorization header.'') \<noteq>
       json_response 401 (error_body ''Invalid or expired token.'')"
    and 5: "json_response 401
         (error_body ''Authorization header must be in 'Bearer <token>' format.'') \<noteq>
       json_response 401 (error_body ''Invalid or expired token.'')"
    using T by blast+
  from missing shape 1 2 3 4 5 stale forged show ?thesis by simp
qed

section \<open>Tokens without a userId claim\<close>

text \<open>
  C10. The guard accepts every token that \<^verbatim>\<open>jwt.verify\<close> accepts and attaches
  \<^verbatim>\<open>payload.userId\<close> as it is. When the payload has no \<^verbatim>\<open>userId\<close> claim the attached
  identity is undefined, the request still reaches its handler, and the handler of
  GET /api/tasks runs its query with that undefined identity.
\<close>

theorem guard_ignores_payload_contents:
  "(CHR '' '' \<notin> set tok \<and> verify tok = Inr payload \<longrightarrow>
      authMiddleware verify (Some (''Bearer '' @ tok)) = Next \<lparr>userId = payload ''userId''\<rparr>)
   \<and> (CHR '' '' \<notin> set tok \<and> verify tok = Inr payload \<and> payload ''userId'' = None \<longrightarrow>
      authMiddleware verify (Some (''Bearer '' @ tok)) = Next \<lparr>userId = None\<rparr>
      \<and> tasks_router verify Number now
           \<lparr>authorization = Some (''Bearer '' @ tok), route = GetTasks\<rparr> db =
          ((case select_tasks None db of
              Inr rows \<Rightarrow> json_response 200 (JObj [(''tasks'', JArr (map row_json rows))])
            | Inl err \<Rightarrow> json_response 500 (error_body ''Failed to fetch tasks.'')), db))"
proof (intro conjI impI)
  assume "CHR '' '' \<notin> set tok \<and> verify tok = Inr payload"
  then show "authMiddleware verify (Some (''Bearer '' @ tok)) =
      Next \<lparr>userId = payload ''userId''\<rparr>"
    using guard_verify [of tok verify] by simp
next
  assume A: "CHR '' '' \<notin> set tok \<and> verify tok = Inr payload \<and> payload ''userId'' = None"
  then show B: "authMiddleware verify (Some (''Bearer '' @ tok)) = Next \<lparr>userId = None\<rparr>"
    using guard_verify [of tok verify] by simp
  then show "tasks_router verify Number now
           \<lparr>authorization = Some (''Bearer '' @ tok), route = GetTasks\<rparr> db =
          ((case select_tasks None db of
              Inr rows \<Rightarrow> json_response 200 (JObj [(''tasks'', JArr (map row_json rows))])
            | Inl err \<Rightarrow> json_response 500 (error_body ''Failed to fetch tasks.'')), db)"
    by (simp add: tasks_router_def get_tasks_def)
qed

theorem guard_ignores_payload_contents_witness:
  "sample_verify ''anonymous'' = Inr Map.empty
   \<and> authMiddleware sample_verify (Some ''Bearer anonymous'') = Next \<lparr>userId = None\<rparr>
   \<and> tasks_router sample_verify sample_Number 40
        \<lparr>authorization = Some ''Bearer anonymous'', route = GetTasks\<rparr> sample_db =
       (json_response 200 (JObj [(''tasks'', JArr [])]), sample_db)"
proof -
  note T = guard_ignores_payload_contents [where verify = sample_verify
      and tok = "''anonymous''" and payload = Map.empty
      and Number = sample_Number and now = 40 and db = sample_db]
  have anon: "sample_verify ''anonymous'' = Inr Map.empty"
    by (simp add: sample_verify_def)
  have sel: "select_tasks None sample_db = Inr []"
    by (simp add: select_tasks_def sample_db_def sql_eq_def order_by_created_at_desc_def)
  from T anon sel show ?thesis by simp
qed

section \<open>The update schema\<close>

lemma safeParse_issues: "fst r \<noteq> [] \<Longrightarrow> safeParse r = Inl (fst r)"
  by (simp add: safeParse_def split: option.splits)

lemma safeParse_refine_Inr:
  assumes "safeParse (zod_refine check iss r) = Inr v"
  shows "check v \<and> r = ([], Some v)"
proof (cases r)
  case (Pair issues val)
  show ?thesis
  proof (cases val)
    case None
    with Pair assms show ?thesis by (simp add: safeParse_def zod_refine_def)
  next
    case (Some w)
    with Pair assms show ?thesis
      by (cases "check w") (auto simp: safeParse_def zod_refine_def split: if_splits)
  qed
qed

lemma update_object_issues:
  "fst (update_object (JObj kvs)) =
     fst (zod_optional
            (zod_string None (Some ''Title must be a string.'')
               [Trim, Min 1 ''Title cannot be empty.''])
            [''title''] (map_of kvs ''title''))
     @ fst (zod_optional
              (zod_string None (Some ''Description must be a string.'')
                 [Trim, Min 1 ''Description cannot be empty''])
              [''description''] (map_of kvs ''description''))
     @ fst (zod_optional
              (zod_boolean None (Some ''Completed must be true or false.''))
              [''completed''] (map_of kvs ''completed''))
     @ unrecognized_keys [''title'', ''description'', ''completed''] kvs"
  by (simp add: update_object_def Let_def split: option.splits)

lemma update_object_no_fields:
  assumes "map_of kvs ''title'' = None" "map_of kvs ''description'' = None"
    "map_of kvs ''completed'' = None"
  shows "update_object (JObj kvs) =
     (unrecognized_keys [''title'', ''description'', ''completed''] kvs,
      Some \<lparr>upd_title = None, upd_description = None, upd_completed = None\<rparr>)"
  using assms by (simp add: update_object_def zod_optional_def)

lemma updateTaskSchema_no_fields:
  assumes "map_of kvs ''title'' = None" "map_of kvs ''description'' = None"
    "map_of kvs ''completed'' = None"
  shows "updateTaskSchema (JObj kvs) =
     Inl (unrecognized_keys [''title'', ''description'', ''completed''] kvs @ [form_issue])"
  by (simp add: updateTaskSchema_def update_object_no_fields [OF assms] zod_refine_def
        object_keys_def safeParse_def)

lemma unrecognized_keys_present:
  assumes "k \<in> set (map fst kvs)" "k \<notin> set shape"
  shows "unrecognized_keys shape kvs \<noteq> []"
proof -
  from assms have "k \<in> set (filter (\<lambda>k. k \<notin> set shape) (map fst kvs))" by simp
  then have "filter (\<lambda>k. k \<notin> set shape) (map fst kvs) \<noteq> []" by force
  then show ?thesis by (simp add: unrecognized_keys_def Let_def)
qed

lemma zod_refine_issues: "fst r \<noteq> [] \<Longrightarrow> fst (zod_refine check iss r) \<noteq> []"
  by (simp add: zod_refine_def split: option.splits)

lemma updateTaskSchema_unknown_key:
  assumes "k \<in> set (map fst kvs)" "k \<notin> {''title'', ''description'', ''completed''}"
  shows "\<exists>issues. issues \<noteq> [] \<and> updateTaskSchema (JObj kvs) = Inl issues"
proof -
  have "unrecognized_keys [''title'', ''description'', ''completed''] kvs \<noteq> []"
    using assms by (intro unrecognized_keys_present [of k]) simp_all
  then have "fst (update_object (JObj kvs)) \<noteq> []"
    by (simp add: update_object_issues)
  then have ne: "fst (zod_refine (\<lambda>d. length (object_keys d) > 0) form_issue
                    (update_object (JObj kvs))) \<noteq> []"
    by (rule zod_refine_issues)
  then have "updateTaskSchema (JObj kvs) =
      Inl (fst (zod_refine (\<lambda>d. length (object_keys d) > 0) form_issue
                  (update_object (JObj kvs))))"
    unfolding updateTaskSchema_def by (rule safeParse_issues)
  with ne show ?thesis by blast
qed

lemma put_task_invalid_body:
  assumes "validatePositiveIntParam Number ''id'' raw_id = Inr taskId"
    and "updateTaskSchema req_body = Inl issues"
  shows "put_task Number u raw_id req_body db = (invalid_input (formatZodError issues), db)"
  using assms by (simp add: put_task_def)

lemma formatZodError_form:
  "formatZodError (issues @ [form_issue]) =
     JArr (map format_issue issues
           @ [JObj [(''field'', JStr ''_form''),
                    (''message'', JStr ''At least one field is required to update a task.'')]])"
  by (simp add: formatZodError_def form_issue_def format_issue_def)

lemma build_updates_nonempty:
  assumes "length (object_keys d) > 0"
  shows "build_updates d \<noteq> []"
  using assms
  by (auto simp: object_keys_def build_updates_def addUpdate_def Let_def
           split: option.splits if_splits)


text \<open>
  C5. An update payload that is an object with none of the fields title, description and
  completed (the empty object included) fails validation; the issue list ends with the
  whole-payload issue, so the 400 answer lists an entry for the reserved field \<open>_form\<close>.
  A payload with a property the schema does not declare fails validation as well. In both
  cases the handler answers 400 and returns the table as it was, whatever its state: the
  storage is not consulted.
\<close>

theorem update_without_fields_rejected:
  "(validatePositiveIntParam Number ''id'' raw_id = Inr taskId
      \<and> map_of kvs ''title'' = None \<and> map_of kvs ''description'' = None
      \<and> map_of kvs ''completed'' = None \<longrightarrow>
      updateTaskSchema (JObj kvs) =
        Inl (unrecognized_keys [''title'', ''description'', ''completed''] kvs @ [form_issue])
      \<and> put_task Number u raw_id (JObj kvs) db =
        (json_response 400
           (JObj [(''error'', JStr ''Invalid input''),
                  (''details'',
                   JArr (map format_issue
                           (unrecognized_keys [''title'', ''description'', ''completed''] kvs)
                         @ [JObj [(''field'', JStr ''_form''),
                                  (''message'',
                                   JStr ''At least one field is required to update a task.'')]]))]),
         db))
   \<and> (validatePositiveIntParam Number ''id'' raw_id = Inr taskId
      \<and> k \<in> set (map fst kvs') \<and> k \<notin> {''title'', ''description'', ''completed''} \<longrightarrow>
      (\<exists>issues. issues \<noteq> [] \<and> updateTaskSchema (JObj kvs') = Inl issues
         \<and> put_task Number u raw_id (JObj kvs') db =
             (json_response 400
                (JObj [(''error'', JStr ''Invalid input''),
                       (''details'', JArr (map format_issue issues))]), db)))"
proof (intro conjI impI)
  assume A: "validatePositiveIntParam Number ''id'' raw_id = Inr taskId
      \<and> map_of kvs ''title'' = None \<and> map_of kvs ''description'' = None
      \<and> map_of kvs ''completed'' = None"
  then show S: "updateTaskSchema (JObj kvs) =
        Inl (unrecognized_keys [''title'', ''description'', ''completed''] kvs @ [form_issue])"
    by (simp add: updateTaskSchema_no_fields)
  from A have "put_task Number u raw_id (JObj kvs) db =
      (invalid_input (formatZodError
         (unrecognized_keys [''title'', ''description'', ''completed''] kvs @ [form_issue])), db)"
    using S by (intro put_task_invalid_body [of _ _ taskId]) simp_all
  then show "put_task Number u raw_id (JObj kvs) db =
        (json_response 400
           (JObj [(''error'', JStr ''Invalid input''),
                  (''details'',
                   JArr (map format_issue
                           (unrecognized_keys [''title'', ''description'', ''completed''] kvs)
                         @ [JObj [(''field'', JStr ''_form''),
                                  (''message'',
                                   JStr ''At least one field is required to update a task.'')]]))]),
         db)"
    by (simp only: formatZodError_form invalid_input_def)
next
  assume A: "validatePositiveIntParam Number ''id'' raw_id = Inr taskId
      \<and> k \<in> set (map fst kvs') \<and> k \<notin> {''title'', ''description'', ''completed''}"
  then obtain issues where I: "issues \<noteq> []" "updateTaskSchema (JObj kvs') = Inl issues"
    using updateTaskSchema_unknown_key [of k kvs'] by blast
  from A I(2) have "put_task Number u raw_id (JObj kvs') db =
      (invalid_input (formatZodError issues), db)"
    by (intro put_task_invalid_body [of _ _ taskId]) simp_all
  then have "put_task Number u raw_id (JObj kvs') db =
             (json_response 400
                (JObj [(''error'', JStr ''Invalid input''),
                       (''details'', JArr (map format_issue issues))]), db)"
    by (simp only: formatZodError_def invalid_input_def)
  with I show "\<exists>issues. issues \<noteq> [] \<and> updateTaskSchema (JObj kvs') = Inl issues
         \<and> put_task Number u raw_id (JObj kvs') db =
             (json_response 400
                (JObj [(''error'', JStr ''Invalid input''),
                       (''details'', JArr (map format_issue issues))]), db)"
    by blast
qed

lemma sample_Number_3: "sample_Number ''3'' = Finite 3"
  by (simp add: sample_Number_def is_digit_def)

lemma validate_sample_3: "validatePositiveIntParam sample_Number ''id'' ''3'' = Inr 3"
  by (simp add: validatePositiveIntParam_def sample_Number_3 Number_isInteger_def le_zero_def
        integer_value_def)

theorem update_without_fields_rejected_witness:
  "validatePositiveIntParam sample_Number ''id'' ''3'' = Inr 3
   \<and> updateTaskSchema (JObj []) = Inl [form_issue]
   \<and> put_task sample_Number \<lparr>userId = Some 1\<rparr> ''3'' (JObj []) sample_db =
        (json_response 400
           (JObj [(''error'', JStr ''Invalid input''),
                  (''details'',
                   JArr [JObj [(''field'', JStr ''_form''),
                               (''message'',
                                JStr ''At least one field is required to update a task.'')]])]),
         sample_db)
   \<and> (\<exists>issues. issues \<noteq> [] \<and> updateTaskSchema (JObj [(''priority'', JNum 1)]) = Inl issues
         \<and> put_task sample_Number \<lparr>userId = Some 1\<rparr> ''3'' (JObj [(''priority'', JNum 1)])
             sample_db =
             (json_response 400
                (JObj [(''error'', JStr ''Invalid input''),
                       (''details'', JArr (map format_issue issues))]), sample_db))"
proof -
  note T = update_without_fields_rejected [where Number = sample_Number and raw_id = "''3''"
      and taskId = 3 and kvs = "[]" and u = "\<lparr>userId = Some 1\<rparr>" and db = sample_db
      and k = "''priority''" and kvs' = "[(''priority'', JNum 1)]"]
  have U: "unrecognized_keys [''title'', ''description'', ''completed''] [] = []"
    by (simp add: unrecognized_keys_def)
  from T validate_sample_3 U show ?thesis by simp
qed

text \<open>
  C9. When the handler of PUT /api/tasks/:id reaches the UPDATE statement, the list of
  column assignments it has built is not empty. The builder itself has no such check: from
  a parsed object without fields it builds the empty list, the strict object schema alone
  accepts the empty object, and the statement with an empty list is rejected by the
  server. Only the refinement of \<open>updateTaskSchema\<close> rules that case out.
\<close>

theorem update_statement_has_assignments:
  "(updateTaskSchema req_body = Inr d \<longrightarrow> build_updates d \<noteq> [])
   \<and> (validatePositiveIntParam Number ''id'' raw_id = Inr taskId
        \<and> updateTaskSchema req_body = Inr d \<longrightarrow>
      put_task Number u raw_id req_body db =
        (case update_tasks (build_updates d) (userId u) taskId db of
           Inr (rows, db') \<Rightarrow>
             if length rows = 0 then (json_response 404 (error_body ''Task not found.''), db')
             else (json_response 200 (JObj [(''task'', row_json (rows ! 0))]), db')
         | Inl err \<Rightarrow> (errorHandler err, db)))
   \<and> build_updates \<lparr>upd_title = None, upd_description = None, upd_completed = None\<rparr> = []
   \<and> safeParse (update_object (JObj [])) =
        Inr \<lparr>upd_title = None, upd_description = None, upd_completed = None\<rparr>
   \<and> (available db \<longrightarrow> update_tasks [] uid taskId db = Inl syntax_error)"
proof (intro conjI impI)
  assume "updateTaskSchema req_body = Inr d"
  then have "length (object_keys d) > 0"
    unfolding updateTaskSchema_def by (rule safeParse_refine_Inr [THEN conjunct1])
  then show "build_updates d \<noteq> []" by (rule build_updates_nonempty)
next
  assume "validatePositiveIntParam Number ''id'' raw_id = Inr taskId
        \<and> updateTaskSchema req_body = Inr d"
  then show "put_task Number u raw_id req_body db =
        (case update_tasks (build_updates d) (userId u) taskId db of
           Inr (rows, db') \<Rightarrow>
             if length rows = 0 then (json_response 404 (error_body ''Task not found.''), db')
             else (json_response 200 (JObj [(''task'', row_json (rows ! 0))]), db')
         | Inl err \<Rightarrow> (errorHandler err, db))"
    by (simp add: put_task_def)
next
  show "build_updates \<lparr>upd_title = None, upd_description = None, upd_completed = None\<rparr> = []"
    by (simp add: build_updates_def)
next
  show "safeParse (update_object (JObj [])) =
        Inr \<lparr>upd_title = None, upd_description = None, upd_completed = None\<rparr>"
    by (simp add: update_object_def zod_optional_def unrecognized_keys_def safeParse_def)
next
  assume "available db"
  then show "update_tasks [] uid taskId db = Inl syntax_error"
    by (simp add: update_tasks_def)
qed

lemma updateTaskSchema_completed_only:
  "updateTaskSchema (JObj [(''completed'', JBool True)]) =
     Inr \<lparr>upd_title = None, upd_description = None, upd_completed = Some True\<rparr>"
  by (auto simp: updateTaskSchema_def update_object_def zod_optional_def zod_boolean_def
        unrecognized_keys_def zod_refine_def object_keys_def safeParse_def)

theorem update_statement_has_assignments_witness:
  "updateTaskSchema (JObj [(''completed'', JBool True)]) =
     Inr \<lparr>upd_title = None, upd_description = None, upd_completed = Some True\<rparr>
   \<and> build_updates \<lparr>upd_title = None, upd_description = None, upd_completed = Some True\<rparr> \<noteq> []
   \<and> put_task sample_Number \<lparr>userId = Some 1\<rparr> ''3'' (JObj [(''completed'', JBool True)])
        sample_db =
      (case update_tasks
              (build_updates \<lparr>upd_title = None, upd_description = None,
                               upd_completed = Some True\<rparr>) (Some 1) 3 sample_db of
         Inr (rows, db') \<Rightarrow>
           if length rows = 0 then (json_response 404 (error_body ''Task not found.''), db')
           else (json_response 200 (JObj [(''task'', row_json (rows ! 0))]), db')
       | Inl err \<Rightarrow> (errorHandler err, sample_db))
   \<and> available sample_db
   \<and> update_tasks [] (Some 1) 3 sample_db = Inl syntax_error"
proof -
  note T = update_statement_has_assignments [where Number = sample_Number
      and raw_id = "''3''" and taskId = 3
      and req_body = "JObj [(''completed'', JBool True)]"
      and d = "\<lparr>upd_title = None, upd_description = None, upd_completed = Some True\<rparr>"
      and u = "\<lparr>userId = Some 1\<rparr>" and db = sample_db and uid = "Some 1"]
  have A: "available sample_db" by (simp add: sample_db_def)
  have 1: "build_updates \<lparr>upd_title = None, upd_description = None, upd_completed = Some True\<rparr>
      \<noteq> []"
    using T [THEN conjunct1] updateTaskSchema_completed_only by (rule mp)
  have 2: "put_task sample_Number \<lparr>userId = Some 1\<rparr> ''3'' (JObj [(''completed'', JBool True)])
        sample_db =
      (case update_tasks
              (build_updates \<lparr>upd_title = None, upd_description = None,
                               upd_completed = Some True\<rparr>) (Some 1) 3 sample_db of
         Inr (rows, db') \<Rightarrow>
           if length rows = 0 then (json_response 404 (error_body ''Task not found.''), db')
           else (json_response 200 (JObj [(''task'', row_json (rows ! 0))]), db')
       | Inl err \<Rightarrow> (errorHandler err, sample_db))"
    using T [THEN conjunct2, THEN conjunct1]
      conjI [OF validate_sample_3 updateTaskSchema_completed_only]
    by (simp only: user.simps)
  have 3: "update_tasks [] (Some 1) 3 sample_db = Inl syntax_error"
    using T [THEN conjunct2, THEN conjunct2, THEN conjunct2, THEN conjunct2] A by (rule mp)
  from updateTaskSchema_completed_only 1 2 A 3 show ?thesis by (intro conjI)
qed

section \<open>The id parameter\<close>

lemma validate_Inr_iff:
  "validatePositiveIntParam Number name raw = Inr n
   \<longleftrightarrow> 0 < n \<and> Number raw = Finite (of_int n)"
proof (cases "Number raw")
  case (Finite q)
  show ?thesis
  proof
    assume "validatePositiveIntParam Number name raw = Inr n"
    with Finite have a: "Number_isInteger (Finite q)" and b: "\<not> le_zero (Finite q)"
      and c: "n = integer_value (Finite q)"
      by (auto simp: validatePositiveIntParam_def Let_def split: if_splits)
    from c have n: "n = \<lfloor>q\<rfloor>" by (simp add: integer_value_def)
    from a have "of_int \<lfloor>q\<rfloor> = q" by (simp add: Number_isInteger_def)
    with n have q: "q = of_int n" by auto
    from b have "\<not> q \<le> 0" by (simp add: le_zero_def)
    with q have "0 < n" by simp
    with q Finite show "0 < n \<and> Number raw = Finite (of_int n)" by simp
  next
    assume "0 < n \<and> Number raw = Finite (of_int n)"
    then show "validatePositiveIntParam Number name raw = Inr n"
      by (simp add: validatePositiveIntParam_def Let_def Number_isInteger_def le_zero_def
            integer_value_def)
  qed
qed (auto simp: validatePositiveIntParam_def Let_def Number_isInteger_def le_zero_def)

lemma validate_cases:
  "validatePositiveIntParam Number name raw =
     Inl (invalid_input
            (JArr [JObj [(''field'', JStr name),
                         (''message'', JStr (name @ '' must be a positive integer.''))]]))
   \<or> (\<exists>n. validatePositiveIntParam Number name raw = Inr n)"
  by (simp add: validatePositiveIntParam_def Let_def)

lemma validate_malformed:
  assumes "\<not> (\<exists>n. 0 < n \<and> Number raw = Finite (of_int n))"
  shows "validatePositiveIntParam Number ''id'' raw =
     Inl (json_response 400
            (JObj [(''error'', JStr ''Invalid input''),
                   (''details'',
                    JArr [JObj [(''field'', JStr ''id''),
                                (''message'', JStr ''id must be a positive integer.'')]])]))"
proof -
  from assms have "\<not> (\<exists>n. validatePositiveIntParam Number ''id'' raw = Inr n)"
    by (simp add: validate_Inr_iff)
  with validate_cases [of Number "''id''" raw] show ?thesis
    by (simp add: invalid_input_def)
qed

section \<open>Statements that match no row\<close>

lemma task_id_fits: "fits_integer (task_id t)"
  using sint_ge [of "id_col t"] sint_lt [of "id_col t"]
  by (simp add: fits_integer_def task_id_def)

lemma delete_tasks_no_hit:
  assumes "available db" "fits_integer n"
    "\<forall>t\<in>set (tasks db). \<not> (sql_eq (user_id t) uid \<and> task_id t = n)"
  shows "delete_tasks uid n db = Inr ([], db)"
proof -
  from assms(3) have "filter (\<lambda>t. sql_eq (user_id t) uid \<and> task_id t = n) (tasks db) = []"
    by (simp add: filter_empty_conv)
  moreover from assms(3)
  have "filter (\<lambda>t. \<not> (sql_eq (user_id t) uid \<and> task_id t = n)) (tasks db) = tasks db"
    by (simp add: filter_id_conv)
  ultimately show ?thesis using assms(1,2) by (simp add: delete_tasks_def)
qed

lemma update_tasks_no_hit:
  assumes "available db" "updates \<noteq> []" "fits_integer n"
    "\<forall>t\<in>set (tasks db). \<not> (sql_eq (user_id t) uid \<and> task_id t = n)"
  shows "update_tasks updates uid n db = Inr ([], db)"
proof -
  from assms(4) have "filter (\<lambda>t. sql_eq (user_id t) uid \<and> task_id t = n) (tasks db) = []"
    by (simp add: filter_empty_conv)
  moreover from assms(4)
  have "map (\<lambda>t. if sql_eq (user_id t) uid \<and> task_id t = n then foldl assign t updates else t)
          (tasks db) = tasks db"
    by (intro map_idI) auto
  ultimately show ?thesis using assms(1,2,3) by (simp add: update_tasks_def)
qed

lemma sql_eq_Some: "sql_eq a (Some x) \<longleftrightarrow> a = Some x"
  by (cases a) (auto simp: sql_eq_def)

lemma sql_eq_None: "\<not> sql_eq a None"
  by (cases a) (auto simp: sql_eq_def)

lemma delete_task_not_found:
  assumes "0 < n" "Number raw = Finite (of_int n)" "available db"
    "\<forall>t\<in>set (tasks db). \<not> (user_id t = Some uid \<and> task_id t = n)"
    "fits_integer n"
  shows "delete_task Number \<lparr>userId = Some uid\<rparr> raw db =
     (json_response 404 (error_body ''Task not found.''), db)"
proof -
  have v: "validatePositiveIntParam Number ''id'' raw = Inr n"
    using assms(1,2) by (simp add: validate_Inr_iff)
  have "delete_tasks (Some uid) n db = Inr ([], db)"
    using assms(3,4,5) by (intro delete_tasks_no_hit) (simp_all add: sql_eq_Some)
  with v show ?thesis by (simp add: delete_task_def)
qed

lemma updateTaskSchema_Inr_updates:
  assumes "updateTaskSchema req_body = Inr d"
  shows "build_updates d \<noteq> []"
proof -
  from assms have "length (object_keys d) > 0"
    unfolding updateTaskSchema_def by (rule safeParse_refine_Inr [THEN conjunct1])
  then show ?thesis by (rule build_updates_nonempty)
qed

lemma put_task_not_found:
  assumes "0 < n" "Number raw = Finite (of_int n)" "available db"
    "\<forall>t\<in>set (tasks db). \<not> (user_id t = Some uid \<and> task_id t = n)"
    "updateTaskSchema req_body = Inr d" "fits_integer n"
  shows "put_task Number \<lparr>userId = Some uid\<rparr> raw req_body db =
     (json_response 404 (error_body ''Task not found.''), db)"
proof -
  have v: "validatePositiveIntParam Number ''id'' raw = Inr n"
    using assms(1,2) by (simp add: validate_Inr_iff)
  have "update_tasks (build_updates d) (Some uid) n db = Inr ([], db)"
    using assms(3,4,6) updateTaskSchema_Inr_updates [OF assms(5)]
    by (intro update_tasks_no_hit) (simp_all add: sql_eq_Some)
  with v assms(5) show ?thesis by (simp add: put_task_def)
qed

lemma put_task_invalid_any:
  assumes "validatePositiveIntParam Number ''id'' raw = Inr n"
    "updateTaskSchema req_body = Inl issues"
  shows "put_task Number u raw req_body db = (invalid_input (formatZodError issues), db)"
  using assms by (simp add: put_task_def)


section \<open>Malformed, absent and oversized task ids\<close>

text \<open>
  When the route parameter does not convert to a positive integer, PUT and DELETE answer
  400 and return the table as it is, for every state of the table: the storage is not
  consulted. When it converts to a positive integer \<open>m\<close> that the identifier column can
  hold and no row of the caller has that id, DELETE answers 404, and PUT answers 404 once
  its body has passed validation.
\<close>

lemma malformed_id_400_storable_absent_id_404:
  "(\<not> (\<exists>n. 0 < n \<and> Number raw_id = Finite (of_int n)) \<longrightarrow>
      put_task Number u raw_id req_body db =
        (json_response 400
           (JObj [(''error'', JStr ''Invalid input''),
                  (''details'',
                   JArr [JObj [(''field'', JStr ''id''),
                               (''message'', JStr ''id must be a positive integer.'')]])]), db)
      \<and> delete_task Number u raw_id db =
        (json_response 400
           (JObj [(''error'', JStr ''Invalid input''),
                  (''details'',
                   JArr [JObj [(''field'', JStr ''id''),
                               (''message'', JStr ''id must be a positive integer.'')]])]), db))
   \<and> (0 < m \<and> fits_integer m \<and> Number raw_id' = Finite (of_int m) \<and> available db'
        \<and> (\<forall>t\<in>set (tasks db'). \<not> (user_id t = Some uid \<and> task_id t = m)) \<longrightarrow>
      delete_task Number \<lparr>userId = Some uid\<rparr> raw_id' db' =
        (json_response 404 (error_body ''Task not found.''), db')
      \<and> (updateTaskSchema req_body' = Inr d \<longrightarrow>
           put_task Number \<lparr>userId = Some uid\<rparr> raw_id' req_body' db' =
             (json_response 404 (error_body ''Task not found.''), db')))"
proof (intro conjI impI)
  assume A: "\<not> (\<exists>n. 0 < n \<and> Number raw_id = Finite (of_int n))"
  show "put_task Number u raw_id req_body db =
        (json_response 400
           (JObj [(''error'', JStr ''Invalid input''),
                  (''details'',
                   JArr [JObj [(''field'', JStr ''id''),
                               (''message'', JStr ''id must be a positive integer.'')]])]), db)"
    by (simp add: put_task_def validate_malformed [of Number raw_id, OF A])
  show "delete_task Number u raw_id db =
        (json_response 400
           (JObj [(''error'', JStr ''Invalid input''),
                  (''details'',
                   JArr [JObj [(''field'', JStr ''id''),
                               (''message'', JStr ''id must be a positive integer.'')]])]), db)"
    by (simp add: delete_task_def validate_malformed [of Number raw_id, OF A])
next
  assume "0 < m \<and> fits_integer m \<and> Number raw_id' = Finite (of_int m) \<and> available db'
        \<and> (\<forall>t\<in>set (tasks db'). \<not> (user_id t = Some uid \<and> task_id t = m))"
  then show "delete_task Number \<lparr>userId = Some uid\<rparr> raw_id' db' =
        (json_response 404 (error_body ''Task not found.''), db')"
    by (intro delete_task_not_found [of m]) simp_all
next
  assume "0 < m \<and> fits_integer m \<and> Number raw_id' = Finite (of_int m) \<and> available db'
        \<and> (\<forall>t\<in>set (tasks db'). \<not> (user_id t = Some uid \<and> task_id t = m))"
    and "updateTaskSchema req_body' = Inr d"
  then show "put_task Number \<lparr>userId = Some uid\<rparr> raw_id' req_body' db' =
             (json_response 404 (error_body ''Task not found.''), db')"
    by (intro put_task_not_found [of m _ _ _ _ _ d]) simp_all
qed

lemma sample_Number_abc: "sample_Number ''abc'' = NaN"
  by (simp add: sample_Number_def is_digit_def)

lemma sample_Number_9: "sample_Number ''9'' = Finite (of_int 9)"
  by (simp add: sample_Number_def is_digit_def)

lemma sample_Number_2: "sample_Number ''2'' = Finite (of_int 2)"
  by (simp add: sample_Number_def is_digit_def)

lemma sample_db_no_9: "\<forall>t\<in>set (tasks sample_db). \<not> (user_id t = Some 1 \<and> task_id t = 9)"
  by (simp add: sample_db_def task_id_def)

lemma sample_Number_oversized: "sample_Number ''2147483648'' = Finite (of_int 2147483648)"
  by (simp add: sample_Number_def is_digit_def)

text \<open>
  A positive integer that the identifier column cannot hold passes the check of the
  parameter. The statement is sent, the server rejects it, and the handlers answer from
  their \<^verbatim>\<open>catch\<close> blocks.
\<close>

lemma oversized_id_500:
  assumes "0 < n" "Number raw = Finite (of_int n)" "\<not> fits_integer n" "available db"
  shows "delete_task Number u raw db =
           (json_response 500 (error_body ''Failed to delete task.''), db)"
    and "updateTaskSchema req_body = Inr d \<Longrightarrow>
         put_task Number u raw req_body db =
           (json_response 500 (error_body ''Internal Server Error''), db)"
proof -
  have v: "validatePositiveIntParam Number ''id'' raw = Inr n"
    using assms(1,2) by (simp add: validate_Inr_iff)
  have "delete_tasks (userId u) n db = Inl out_of_range_error"
    using assms(3,4) by (simp add: delete_tasks_def)
  with v show "delete_task Number u raw db =
           (json_response 500 (error_body ''Failed to delete task.''), db)"
    by (simp add: delete_task_def)
  assume b: "updateTaskSchema req_body = Inr d"
  then have "build_updates d \<noteq> []" by (rule updateTaskSchema_Inr_updates)
  then have "update_tasks (build_updates d) (userId u) n db = Inl out_of_range_error"
    using assms(3,4) by (simp add: update_tasks_def)
  with v b show "put_task Number u raw req_body db =
           (json_response 500 (error_body ''Internal Server Error''), db)"
    by (simp add: put_task_def errorHandler_def out_of_range_error_def)
qed

text \<open>
  C6. The claim requires 400 for a malformed id and 404 for a well-formed id that matches
  no row of the caller. The handlers do so for malformed ids and for ids the identifier
  column can hold, but not for every well-formed id: the parameter \<open>2147483648\<close> is a
  positive integer, passes \<open>validatePositiveIntParam\<close>, and is one more than the
  column can hold. DELETE /api/tasks/2147483648 answers 500 where the absent id 9 is
  answered 404, and PUT /api/tasks/2147483648 with a valid body answers 500 as well.
\<close>

theorem oversized_id_answers_500:
  "delete_task sample_Number \<lparr>userId = Some 1\<rparr> ''9'' sample_db =
     (json_response 404 (error_body ''Task not found.''), sample_db)
   \<and> delete_task sample_Number \<lparr>userId = Some 1\<rparr> ''2147483648'' sample_db =
     (json_response 500 (error_body ''Failed to delete task.''), sample_db)
   \<and> put_task sample_Number \<lparr>userId = Some 1\<rparr> ''2147483648''
        (JObj [(''completed'', JBool True)]) sample_db =
     (json_response 500 (error_body ''Internal Server Error''), sample_db)"
proof -
  have A: "available sample_db" by (simp add: sample_db_def)
  have F: "\<not> fits_integer 2147483648" by (simp add: fits_integer_def)
  have G: "fits_integer 9" by (simp add: fits_integer_def)
  have 1: "delete_task sample_Number \<lparr>userId = Some 1\<rparr> ''9'' sample_db =
     (json_response 404 (error_body ''Task not found.''), sample_db)"
    using sample_Number_9 A sample_db_no_9 G
    by (intro delete_task_not_found [where n = 9]) simp_all
  have 2: "delete_task sample_Number \<lparr>userId = Some 1\<rparr> ''2147483648'' sample_db =
     (json_response 500 (error_body ''Failed to delete task.''), sample_db)"
    using sample_Number_oversized F A
    by (intro oversized_id_500(1) [where n = 2147483648]) simp_all
  have 3: "put_task sample_Number \<lparr>userId = Some 1\<rparr> ''2147483648''
        (JObj [(''completed'', JBool True)]) sample_db =
     (json_response 500 (error_body ''Internal Server Error''), sample_db)"
    using sample_Number_oversized F A updateTaskSchema_completed_only
    by (intro oversized_id_500(2) [where n = 2147483648]) simp_all
  from 1 2 3 show ?thesis by (intro conjI)
qed

text \<open>
  C4. For a caller \<open>uid\<close> and a well-formed id \<open>n\<close>, compare a table in which no task has
  id \<open>n\<close> with a table in which such a task exists and belongs to somebody else. DELETE
  gives the same 404 answer on both, PUT gives the same answer on both for every body, and
  that answer is the same 404 once the body passes validation. Neither table is changed.
\<close>

theorem absent_and_foreign_task_same_answer:
  "0 < n \<and> Number raw_id = Finite (of_int n) \<and> available db_absent \<and> available db_foreign
     \<and> (\<forall>t\<in>set (tasks db_absent). task_id t \<noteq> n)
     \<and> (\<exists>t\<in>set (tasks db_foreign). task_id t = n)
     \<and> (\<forall>t\<in>set (tasks db_foreign). task_id t = n \<longrightarrow> user_id t \<noteq> Some uid) \<longrightarrow>
   delete_task Number \<lparr>userId = Some uid\<rparr> raw_id db_absent =
     (json_response 404 (error_body ''Task not found.''), db_absent)
   \<and> delete_task Number \<lparr>userId = Some uid\<rparr> raw_id db_foreign =
     (json_response 404 (error_body ''Task not found.''), db_foreign)
   \<and> fst (put_task Number \<lparr>userId = Some uid\<rparr> raw_id req_body db_absent) =
     fst (put_task Number \<lparr>userId = Some uid\<rparr> raw_id req_body db_foreign)
   \<and> (updateTaskSchema req_body = Inr d \<longrightarrow>
        put_task Number \<lparr>userId = Some uid\<rparr> raw_id req_body db_absent =
          (json_response 404 (error_body ''Task not found.''), db_absent)
        \<and> put_task Number \<lparr>userId = Some uid\<rparr> raw_id req_body db_foreign =
          (json_response 404 (error_body ''Task not found.''), db_foreign))"
proof (intro impI)
  assume A: "0 < n \<and> Number raw_id = Finite (of_int n) \<and> available db_absent \<and> available db_foreign
     \<and> (\<forall>t\<in>set (tasks db_absent). task_id t \<noteq> n)
     \<and> (\<exists>t\<in>set (tasks db_foreign). task_id t = n)
     \<and> (\<forall>t\<in>set (tasks db_foreign). task_id t = n \<longrightarrow> user_id t \<noteq> Some uid)"
  then have n: "0 < n" "Number raw_id = Finite (of_int n)"
    and av: "available db_absent" "available db_foreign" by simp_all
  from A have no1: "\<forall>t\<in>set (tasks db_absent). \<not> (user_id t = Some uid \<and> task_id t = n)" by simp
  from A have no2: "\<forall>t\<in>set (tasks db_foreign). \<not> (user_id t = Some uid \<and> task_id t = n)" by blast
  from A obtain t where "task_id t = n" by blast
  then have fits: "fits_integer n" using task_id_fits [of t] by simp
  have v: "validatePositiveIntParam Number ''id'' raw_id = Inr n"
    using n by (simp add: validate_Inr_iff)
  have d1: "delete_task Number \<lparr>userId = Some uid\<rparr> raw_id db_absent =
     (json_response 404 (error_body ''Task not found.''), db_absent)"
    using n av(1) no1 fits
    by (rule delete_task_not_found [where Number = Number and raw = raw_id])
  have d2: "delete_task Number \<lparr>userId = Some uid\<rparr> raw_id db_foreign =
     (json_response 404 (error_body ''Task not found.''), db_foreign)"
    using n av(2) no2 fits
    by (rule delete_task_not_found [where Number = Number and raw = raw_id])
  have p: "put_task Number \<lparr>userId = Some uid\<rparr> raw_id req_body db_absent =
          (json_response 404 (error_body ''Task not found.''), db_absent)
        \<and> put_task Number \<lparr>userId = Some uid\<rparr> raw_id req_body db_foreign =
          (json_response 404 (error_body ''Task not found.''), db_foreign)"
    if "updateTaskSchema req_body = Inr d'" for d'
    using put_task_not_found [where Number = Number and raw = raw_id, OF n av(1) no1 that fits]
      put_task_not_found [where Number = Number and raw = raw_id, OF n av(2) no2 that fits]
    by simp
  have e: "fst (put_task Number \<lparr>userId = Some uid\<rparr> raw_id req_body db_absent) =
     fst (put_task Number \<lparr>userId = Some uid\<rparr> raw_id req_body db_foreign)"
  proof (cases "updateTaskSchema req_body")
    case (Inl issues)
    then show ?thesis using v by (simp add: put_task_invalid_any [where Number = Number and raw = raw_id])
  next
    case (Inr d')
    then show ?thesis using p by simp
  qed
  from d1 d2 e p show "delete_task Number \<lparr>userId = Some uid\<rparr> raw_id db_absent =
     (json_response 404 (error_body ''Task not found.''), db_absent)
   \<and> delete_task Number \<lparr>userId = Some uid\<rparr> raw_id db_foreign =
     (json_response 404 (error_body ''Task not found.''), db_foreign)
   \<and> fst (put_task Number \<lparr>userId = Some uid\<rparr> raw_id req_body db_absent) =
     fst (put_task Number \<lparr>userId = Some uid\<rparr> raw_id req_body db_foreign)
   \<and> (updateTaskSchema req_body = Inr d \<longrightarrow>
        put_task Number \<lparr>userId = Some uid\<rparr> raw_id req_body db_absent =
          (json_response 404 (error_body ''Task not found.''), db_absent)
        \<and> put_task Number \<lparr>userId = Some uid\<rparr> raw_id req_body db_foreign =
          (json_response 404 (error_body ''Task not found.''), db_foreign))"
    by blast
qed

theorem absent_and_foreign_task_same_answer_witness:
  "sample_Number ''2'' = Finite (of_int 2)
   \<and> delete_task sample_Number \<lparr>userId = Some 1\<rparr> ''2'' sample_db_without_2 =
     (json_response 404 (error_body ''Task not found.''), sample_db_without_2)
   \<and> delete_task sample_Number \<lparr>userId = Some 1\<rparr> ''2'' sample_db =
     (json_response 404 (error_body ''Task not found.''), sample_db)
   \<and> put_task sample_Number \<lparr>userId = Some 1\<rparr> ''2'' (JObj [(''completed'', JBool True)])
       sample_db_without_2 =
     (json_response 404 (error_body ''Task not found.''), sample_db_without_2)
   \<and> put_task sample_Number \<lparr>userId = Some 1\<rparr> ''2'' (JObj [(''completed'', JBool True)])
       sample_db =
     (json_response 404 (error_body ''Task not found.''), sample_db)"
proof -
  note T = absent_and_foreign_task_same_answer [where Number = sample_Number
      and raw_id = "''2''" and n = 2 and uid = 1
      and db_absent = sample_db_without_2 and db_foreign = sample_db
      and req_body = "JObj [(''completed'', JBool True)]"
      and d = "\<lparr>upd_title = None, upd_description = None, upd_completed = Some True\<rparr>"]
  have H: "0 < (2::int) \<and> sample_Number ''2'' = Finite (of_int 2)
     \<and> available sample_db_without_2 \<and> available sample_db
     \<and> (\<forall>t\<in>set (tasks sample_db_without_2). task_id t \<noteq> 2)
     \<and> (\<exists>t\<in>set (tasks sample_db). task_id t = 2)
     \<and> (\<forall>t\<in>set (tasks sample_db). task_id t = 2 \<longrightarrow> user_id t \<noteq> Some 1)"
    using sample_Number_2 by (simp add: sample_db_def sample_db_without_2_def task_id_def)
  from T H updateTaskSchema_completed_only sample_Number_2 show ?thesis by blast
qed

section \<open>Listing tasks\<close>

lemma mset_order_by: "mset (order_by_created_at_desc rows) = mset rows"
  by (simp add: order_by_created_at_desc_def)

lemma set_order_by: "set (order_by_created_at_desc rows) = set rows"
  by (simp add: order_by_created_at_desc_def)

lemma sorted_order_by:
  "sorted_wrt (\<lambda>x y. created_at y \<le> created_at x) (order_by_created_at_desc rows)"
proof -
  have "sorted (map created_at (sort_key created_at rows))"
    by (rule sorted_sort_key)
  then have "sorted_wrt (\<lambda>x y. created_at x \<le> created_at y) (sort_key created_at rows)"
    by (simp add: sorted_wrt_map)
  then show ?thesis
    by (simp add: order_by_created_at_desc_def sorted_wrt_rev)
qed

lemma owner_filter:
  "filter (\<lambda>t. sql_eq (user_id t) (Some uid)) rows = filter (\<lambda>t. user_id t = Some uid) rows"
  by (simp add: sql_eq_Some)

lemma select_tasks_available:
  assumes "available db"
  shows "select_tasks (Some uid) db =
     Inr (order_by_created_at_desc (filter (\<lambda>t. user_id t = Some uid) (tasks db)))"
  using assms by (simp add: select_tasks_def owner_filter)

text \<open>
  C8. While the storage answers, GET /api/tasks under identity \<open>uid\<close> answers 200 with
  the rows of \<open>uid\<close>, each exactly once, in an order in which no row comes before a row
  created later. When \<open>uid\<close> owns no row the answer is 200 with the empty list.
\<close>

theorem list_newest_first:
  "available db \<longrightarrow>
     (\<exists>rows. select_tasks (Some uid) db = Inr rows
        \<and> get_tasks \<lparr>userId = Some uid\<rparr> db =
            json_response 200 (JObj [(''tasks'', JArr (map row_json rows))])
        \<and> mset rows = mset (filter (\<lambda>t. user_id t = Some uid) (tasks db))
        \<and> sorted_wrt (\<lambda>x y. created_at y \<le> created_at x) rows)
     \<and> ((\<forall>t\<in>set (tasks db). user_id t \<noteq> Some uid) \<longrightarrow>
          get_tasks \<lparr>userId = Some uid\<rparr> db = json_response 200 (JObj [(''tasks'', JArr [])]))"
proof (intro impI conjI)
  assume A: "available db"
  let ?rows = "order_by_created_at_desc (filter (\<lambda>t. user_id t = Some uid) (tasks db))"
  have s: "select_tasks (Some uid) db = Inr ?rows"
    using A by (rule select_tasks_available)
  then have g: "get_tasks \<lparr>userId = Some uid\<rparr> db =
      json_response 200 (JObj [(''tasks'', JArr (map row_json ?rows))])"
    by (simp add: get_tasks_def)
  have m: "mset ?rows = mset (filter (\<lambda>t. user_id t = Some uid) (tasks db))"
    by (rule mset_order_by)
  have o: "sorted_wrt (\<lambda>x y. created_at y \<le> created_at x) ?rows"
    by (rule sorted_order_by)
  from s g m o show "\<exists>rows. select_tasks (Some uid) db = Inr rows
        \<and> get_tasks \<lparr>userId = Some uid\<rparr> db =
            json_response 200 (JObj [(''tasks'', JArr (map row_json rows))])
        \<and> mset rows = mset (filter (\<lambda>t. user_id t = Some uid) (tasks db))
        \<and> sorted_wrt (\<lambda>x y. created_at y \<le> created_at x) rows"
    by blast
  assume "\<forall>t\<in>set (tasks db). user_id t \<noteq> Some uid"
  then have "filter (\<lambda>t. user_id t = Some uid) (tasks db) = []"
    by (simp add: filter_empty_conv)
  then have "?rows = []" by (simp add: order_by_created_at_desc_def)
  with g show "get_tasks \<lparr>userId = Some uid\<rparr> db = json_response 200 (JObj [(''tasks'', JArr [])])"
    by simp
qed

theorem list_newest_first_witness:
  "available sample_db
   \<and> get_tasks \<lparr>userId = Some 1\<rparr> sample_db =
       json_response 200
         (JObj [(''tasks'',
            JArr [JObj [(''id'', JNum 3), (''title'', JStr ''file taxes''),
                        (''description'', JNull), (''completed'', JBool True),
                        (''created_at'', JNum 30)],
                  JObj [(''id'', JNum 1), (''title'', JStr ''buy milk''),
                        (''description'', JNull), (''completed'', JBool False),
                        (''created_at'', JNum 10)]])])
   \<and> (\<exists>rows. select_tasks (Some 1) sample_db = Inr rows
        \<and> get_tasks \<lparr>userId = Some 1\<rparr> sample_db =
            json_response 200 (JObj [(''tasks'', JArr (map row_json rows))])
        \<and> mset rows = mset (filter (\<lambda>t. user_id t = Some 1) (tasks sample_db))
        \<and> sorted_wrt (\<lambda>x y. created_at y \<le> created_at x) rows)
   \<and> get_tasks \<lparr>userId = Some 5\<rparr> sample_db = json_response 200 (JObj [(''tasks'', JArr [])])"
proof -
  have A: "available sample_db" by (simp add: sample_db_def)
  have E: "\<forall>t\<in>set (tasks sample_db). user_id t \<noteq> Some 5" by (simp add: sample_db_def)
  have 1: "\<exists>rows. select_tasks (Some 1) sample_db = Inr rows
        \<and> get_tasks \<lparr>userId = Some 1\<rparr> sample_db =
            json_response 200 (JObj [(''tasks'', JArr (map row_json rows))])
        \<and> mset rows = mset (filter (\<lambda>t. user_id t = Some 1) (tasks sample_db))
        \<and> sorted_wrt (\<lambda>x y. created_at y \<le> created_at x) rows"
    using list_newest_first [where db = sample_db and uid = 1] A by blast
  have 2: "get_tasks \<lparr>userId = Some 5\<rparr> sample_db = json_response 200 (JObj [(''tasks'', JArr [])])"
    using list_newest_first [where db = sample_db and uid = 5] A E by blast
  have 3: "get_tasks \<lparr>userId = Some 1\<rparr> sample_db =
       json_response 200
         (JObj [(''tasks'',
            JArr [JObj [(''id'', JNum 3), (''title'', JStr ''file taxes''),
                        (''description'', JNull), (''completed'', JBool True),
                        (''created_at'', JNum 30)],
                  JObj [(''id'', JNum 1), (''title'', JStr ''buy milk''),
                        (''description'', JNull), (''completed'', JBool False),
                        (''created_at'', JNum 10)]])])"
    by (simp add: get_tasks_def select_tasks_def sample_db_def sql_eq_def
          order_by_created_at_desc_def row_json_def task_id_def)
  from A 1 2 3 show ?thesis by (intro conjI)
qed

section \<open>Creating a task\<close>

lemma createTaskSchema_title_only:
  assumes "js_trim ttl \<noteq> []"
  shows "createTaskSchema (JObj [(''title'', JStr ttl)]) =
     Inr \<lparr>new_title = js_trim ttl, new_description = None\<rparr>"
proof -
  have "length (js_trim ttl) \<noteq> 0" using assms by simp
  then have "\<not> length (js_trim ttl) < 1" by simp
  then show ?thesis
    by (simp add: createTaskSchema_def create_object_def zod_string_def zod_optional_def
          unrecognized_keys_def safeParse_def Let_def)
qed

lemma select_after_insert:
  assumes "\<forall>t\<in>set (tasks db). user_id t \<noteq> Some uid"
  shows "select_tasks (Some uid)
           (db\<lparr>tasks := tasks db @ [row\<lparr>user_id := Some uid\<rparr>], id_seq := k\<rparr>) =
         (if available db then Inr [row\<lparr>user_id := Some uid\<rparr>] else Inl connection_error)"
proof -
  from assms have "filter (\<lambda>t. user_id t = Some uid) (tasks db) = []"
    by (simp add: filter_empty_conv)
  then show ?thesis
    by (simp add: select_tasks_def owner_filter order_by_created_at_desc_def)
qed

text \<open>
  C7. Let \<open>uid\<close> own no task and let the storage answer. Creating a task from the body
  \<open>{title: ttl}\<close>, with no description and a title that is not blank, answers 201 with the
  new row; listing the tasks of \<open>uid\<close> afterwards answers 200 with exactly that one row.
  The row carries the trimmed title, \<open>completed\<close> false, and the property
  \<open>description\<close> with the value null.
\<close>

theorem create_then_list:
  "available db \<and> (\<forall>t\<in>set (tasks db). user_id t \<noteq> Some uid) \<and> js_trim ttl \<noteq> [] \<longrightarrow>
     fst (post_task now \<lparr>userId = Some uid\<rparr> (JObj [(''title'', JStr ttl)]) db) =
       json_response 201
         (JObj [(''task'',
            JObj [(''id'', JNum (next_id db)), (''title'', JStr (js_trim ttl)),
                  (''description'', JNull), (''completed'', JBool False),
                  (''created_at'', JNum (int now))])])
     \<and> get_tasks \<lparr>userId = Some uid\<rparr>
         (snd (post_task now \<lparr>userId = Some uid\<rparr> (JObj [(''title'', JStr ttl)]) db)) =
       json_response 200
         (JObj [(''tasks'',
            JArr [JObj [(''id'', JNum (next_id db)), (''title'', JStr (js_trim ttl)),
                        (''description'', JNull), (''completed'', JBool False),
                        (''created_at'', JNum (int now))]])])"
proof (intro impI)
  assume A: "available db \<and> (\<forall>t\<in>set (tasks db). user_id t \<noteq> Some uid) \<and> js_trim ttl \<noteq> []"
  let ?row = "\<lparr>id_col = id_seq db, user_id = Some uid, title = js_trim ttl,
               description = None, completed = False, created_at = now\<rparr>"
  let ?db' = "db\<lparr>tasks := tasks db @ [?row], id_seq := id_seq db + 1\<rparr>"
  have c: "createTaskSchema (JObj [(''title'', JStr ttl)]) =
     Inr \<lparr>new_title = js_trim ttl, new_description = None\<rparr>"
    using A by (simp add: createTaskSchema_title_only)
  have i: "insert_task now (Some uid) (js_trim ttl) None db = Inr ([?row], ?db')"
    using A by (simp add: insert_task_def Let_def)
  have p: "post_task now \<lparr>userId = Some uid\<rparr> (JObj [(''title'', JStr ttl)]) db =
     (json_response 201 (JObj [(''task'', row_json ?row)]), ?db')"
    by (simp add: post_task_def c i)
  have "?row = ?row\<lparr>user_id := Some uid\<rparr>" by simp
  then have "select_tasks (Some uid) ?db' = Inr [?row]"
    using A select_after_insert [where db = db and uid = uid and row = ?row and k = "id_seq db + 1"] by simp
  then have g: "get_tasks \<lparr>userId = Some uid\<rparr> ?db' =
      json_response 200 (JObj [(''tasks'', JArr [row_json ?row])])"
    by (simp add: get_tasks_def)
  have r: "row_json ?row =
      JObj [(''id'', JNum (next_id db)), (''title'', JStr (js_trim ttl)),
            (''description'', JNull), (''completed'', JBool False),
            (''created_at'', JNum (int now))]"
    by (simp add: row_json_def task_id_def next_id_def)
  from p g r show "fst (post_task now \<lparr>userId = Some uid\<rparr> (JObj [(''title'', JStr ttl)]) db) =
       json_response 201
         (JObj [(''task'',
            JObj [(''id'', JNum (next_id db)), (''title'', JStr (js_trim ttl)),
                  (''description'', JNull), (''completed'', JBool False),
                  (''created_at'', JNum (int now))])])
     \<and> get_tasks \<lparr>userId = Some uid\<rparr>
         (snd (post_task now \<lparr>userId = Some uid\<rparr> (JObj [(''title'', JStr ttl)]) db)) =
       json_response 200
         (JObj [(''tasks'',
            JArr [JObj [(''id'', JNum (next_id db)), (''title'', JStr (js_trim ttl)),
                        (''description'', JNull), (''completed'', JBool False),
                        (''created_at'', JNum (int now))]])])"
    by simp
qed

lemma js_trim_X: "js_trim ''X'' = ''X''"
  by (simp add: js_trim_def is_white_space_def)

theorem create_then_list_witness:
  "available sample_db \<and> filter (\<lambda>t. user_id t = Some 5) (tasks sample_db) = []
   \<and> js_trim ''X'' = ''X''
   \<and> fst (post_task 40 \<lparr>userId = Some 5\<rparr> (JObj [(''title'', JStr ''X'')]) sample_db) =
       json_response 201
         (JObj [(''task'',
            JObj [(''id'', JNum 4), (''title'', JStr ''X''),
                  (''description'', JNull), (''completed'', JBool False),
                  (''created_at'', JNum 40)])])
   \<and> get_tasks \<lparr>userId = Some 5\<rparr>
         (snd (post_task 40 \<lparr>userId = Some 5\<rparr> (JObj [(''title'', JStr ''X'')]) sample_db)) =
       json_response 200
         (JObj [(''tasks'',
            JArr [JObj [(''id'', JNum 4), (''title'', JStr ''X''),
                        (''description'', JNull), (''completed'', JBool False),
                        (''created_at'', JNum 40)]])])"
proof -
  have A: "available sample_db" by (simp add: sample_db_def)
  have E: "\<forall>t\<in>set (tasks sample_db). user_id t \<noteq> Some 5" by (simp add: sample_db_def)
  have N: "next_id sample_db = 4" by (simp add: sample_db_def next_id_def)
  have H: "available sample_db \<and> (\<forall>t\<in>set (tasks sample_db). user_id t \<noteq> Some 5)
      \<and> js_trim ''X'' \<noteq> []"
    using A E by (simp add: js_trim_X)
  note T = create_then_list [where db = sample_db and uid = 5 and ttl = "''X''" and now = 40,
      THEN mp, OF H]
  have F: "filter (\<lambda>t. user_id t = Some 5) (tasks sample_db) = []"
    using E by (simp add: filter_empty_conv)
  from T A F show ?thesis by (simp add: js_trim_X N)
qed

section \<open>Ownership isolation\<close>

lemma user_id_assign: "user_id (foldl assign t updates) = user_id t"
proof (induction updates arbitrary: t)
  case Nil
  show ?case by simp
next
  case (Cons a updates)
  have "user_id (assign t a) = user_id t" by (cases a) simp_all
  with Cons show ?case by simp
qed

lemma select_tasks_rows:
  assumes "select_tasks (Some b) db = Inr rows"
  shows "set rows = {r \<in> set (tasks db). user_id r = Some b}"
proof -
  from assms have "available db"
    by (simp add: select_tasks_def split: if_splits)
  with assms have "rows = order_by_created_at_desc (filter (\<lambda>t. user_id t = Some b) (tasks db))"
    by (simp add: select_tasks_available)
  then show ?thesis by (simp add: set_order_by)
qed

lemma update_tasks_result:
  assumes "update_tasks updates (Some b) n db = Inr (rows, db')"
  shows "rows = map (\<lambda>t. foldl assign t updates)
                  (filter (\<lambda>t. user_id t = Some b \<and> task_id t = n) (tasks db))"
    and "tasks db' = map (\<lambda>t. if user_id t = Some b \<and> task_id t = n
                               then foldl assign t updates else t) (tasks db)"
  using assms by (auto simp: update_tasks_def sql_eq_Some split: if_splits)

lemma delete_tasks_result:
  assumes "delete_tasks (Some b) n db = Inr (rows, db')"
  shows "rows = filter (\<lambda>t. user_id t = Some b \<and> task_id t = n) (tasks db)"
    and "tasks db' = filter (\<lambda>t. \<not> (user_id t = Some b \<and> task_id t = n)) (tasks db)"
  using assms by (auto simp: delete_tasks_def sql_eq_Some split: if_splits)

lemma update_tasks_keeps_foreign:
  assumes "update_tasks updates (Some b) n db = Inr (rows, db')"
    and "t \<in> set (tasks db)" "user_id t \<noteq> Some b"
  shows "t \<in> set (tasks db')" and "\<forall>r\<in>set rows. user_id r = Some b"
proof -
  let ?f = "\<lambda>t. if user_id t = Some b \<and> task_id t = n then foldl assign t updates else t"
  have "?f t = t" using assms(3) by simp
  then have "t \<in> ?f ` set (tasks db)" using assms(2) by force
  then show "t \<in> set (tasks db')"
    by (simp add: update_tasks_result(2) [OF assms(1)])
  show "\<forall>r\<in>set rows. user_id r = Some b"
    by (auto simp: update_tasks_result(1) [OF assms(1)] user_id_assign)
qed

lemma delete_tasks_keeps_foreign:
  assumes "delete_tasks (Some b) n db = Inr (rows, db')"
    and "t \<in> set (tasks db)" "user_id t \<noteq> Some b"
  shows "t \<in> set (tasks db')" and "\<forall>r\<in>set rows. user_id r = Some b"
  using assms(2,3)
  by (auto simp: delete_tasks_result [OF assms(1)])

lemma put_task_tasks:
  "tasks (snd (put_task Number \<lparr>userId = Some b\<rparr> raw_id req_body db)) = tasks db
   \<or> (\<exists>updates n rows db'. update_tasks updates (Some b) n db = Inr (rows, db')
        \<and> snd (put_task Number \<lparr>userId = Some b\<rparr> raw_id req_body db) = db')"
  by (auto simp: put_task_def split: sum.splits prod.splits)

lemma delete_task_tasks:
  "tasks (snd (delete_task Number \<lparr>userId = Some b\<rparr> raw_id db)) = tasks db
   \<or> (\<exists>n rows db'. delete_tasks (Some b) n db = Inr (rows, db')
        \<and> snd (delete_task Number \<lparr>userId = Some b\<rparr> raw_id db) = db')"
  by (auto simp: delete_task_def split: sum.splits prod.splits)

lemma put_task_keeps_foreign:
  assumes "t \<in> set (tasks db)" "user_id t \<noteq> Some b"
  shows "t \<in> set (tasks (snd (put_task Number \<lparr>userId = Some b\<rparr> raw_id req_body db)))"
  using put_task_tasks [of Number b raw_id req_body db] assms
    update_tasks_keeps_foreign(1) by fastforce

lemma delete_task_keeps_foreign:
  assumes "t \<in> set (tasks db)" "user_id t \<noteq> Some b"
  shows "t \<in> set (tasks (snd (delete_task Number \<lparr>userId = Some b\<rparr> raw_id db)))"
  using delete_task_tasks [of Number b raw_id db] assms
    delete_tasks_keeps_foreign(1) by fastforce


lemma filter_own_hit:
  "filter (\<lambda>t. user_id t = Some b \<and> task_id t = n) (filter (\<lambda>r. user_id r = Some b) rows) =
   filter (\<lambda>t. user_id t = Some b \<and> task_id t = n) rows"
  by (induction rows) auto

lemma get_tasks_own_rows:
  "get_tasks \<lparr>userId = Some b\<rparr> (db\<lparr>tasks := filter (\<lambda>r. user_id r = Some b) (tasks db)\<rparr>) =
   get_tasks \<lparr>userId = Some b\<rparr> db"
  by (simp add: get_tasks_def select_tasks_def owner_filter)

lemma update_tasks_own_rows:
  "map_sum id fst
     (update_tasks updates (Some b) n
        (db\<lparr>tasks := filter (\<lambda>r. user_id r = Some b) (tasks db)\<rparr>)) =
   map_sum id fst (update_tasks updates (Some b) n db)"
  by (simp add: update_tasks_def sql_eq_Some filter_own_hit)

lemma delete_tasks_own_rows:
  "map_sum id fst
     (delete_tasks (Some b) n (db\<lparr>tasks := filter (\<lambda>r. user_id r = Some b) (tasks db)\<rparr>)) =
   map_sum id fst (delete_tasks (Some b) n db)"
  by (simp add: delete_tasks_def sql_eq_Some filter_own_hit)

lemma put_task_response:
  "fst (put_task Number u raw_id req_body db) =
     (case validatePositiveIntParam Number ''id'' raw_id of
        Inl resp \<Rightarrow> resp
      | Inr taskId \<Rightarrow>
          (case updateTaskSchema req_body of
             Inl issues \<Rightarrow> invalid_input (formatZodError issues)
           | Inr d \<Rightarrow>
               (case map_sum id fst (update_tasks (build_updates d) (userId u) taskId db) of
                  Inr rows \<Rightarrow>
                    if length rows = 0 then json_response 404 (error_body ''Task not found.'')
                    else json_response 200 (JObj [(''task'', row_json (rows ! 0))])
                | Inl err \<Rightarrow> errorHandler err)))"
  by (simp add: put_task_def split: sum.splits prod.splits)

lemma delete_task_response:
  "fst (delete_task Number u raw_id db) =
     (case validatePositiveIntParam Number ''id'' raw_id of
        Inl resp \<Rightarrow> resp
      | Inr taskId \<Rightarrow>
          (case map_sum id fst (delete_tasks (userId u) taskId db) of
             Inr rows \<Rightarrow>
               if length rows = 0 then json_response 404 (error_body ''Task not found.'')
               else json_response 200
                      (JObj [(''message'', JStr ''Task deleted.''),
                             (''taskId'', JNum (task_id (rows ! 0)))])
           | Inl err \<Rightarrow> json_response 500 (error_body ''Failed to delete task.'')))"
  by (simp add: delete_task_def split: sum.splits prod.splits)

lemma put_task_own_rows:
  "fst (put_task Number \<lparr>userId = Some b\<rparr> raw_id req_body
          (db\<lparr>tasks := filter (\<lambda>r. user_id r = Some b) (tasks db)\<rparr>)) =
   fst (put_task Number \<lparr>userId = Some b\<rparr> raw_id req_body db)"
  by (simp only: put_task_response user.simps update_tasks_own_rows)

lemma delete_task_own_rows:
  "fst (delete_task Number \<lparr>userId = Some b\<rparr> raw_id
          (db\<lparr>tasks := filter (\<lambda>r. user_id r = Some b) (tasks db)\<rparr>)) =
   fst (delete_task Number \<lparr>userId = Some b\<rparr> raw_id db)"
  by (simp only: delete_task_response user.simps delete_tasks_own_rows)


text \<open>
  C1. Let \<open>t\<close> be a row of the table owned by \<open>a\<close>, and let \<open>b\<close> be another user. Then
  \<open>t\<close> is not among the rows the SELECT of GET /api/tasks returns to \<open>b\<close>, and every row
  it returns is owned by \<open>b\<close>; an UPDATE or DELETE issued for \<open>b\<close> returns only rows of
  \<open>b\<close> and leaves \<open>t\<close> in the table as it was, and so do the handlers of PUT and DELETE
  for every id and body. The answers \<open>b\<close> receives from GET, PUT and DELETE are the ones
  \<open>b\<close> would receive if the table held the rows of \<open>b\<close> only: the ownership test is part
  of each statement's WHERE clause.
\<close>

theorem ownership_isolation:
  "t \<in> set (tasks db) \<and> user_id t = Some a \<and> a \<noteq> b \<longrightarrow>
     (select_tasks (Some b) db = Inr rows \<longrightarrow>
        t \<notin> set rows \<and> (\<forall>r\<in>set rows. user_id r = Some b))
     \<and> (update_tasks updates (Some b) n db = Inr (urows, udb) \<longrightarrow>
        t \<in> set (tasks udb) \<and> (\<forall>r\<in>set urows. user_id r = Some b))
     \<and> (delete_tasks (Some b) n db = Inr (drows, ddb) \<longrightarrow>
        t \<in> set (tasks ddb) \<and> (\<forall>r\<in>set drows. user_id r = Some b))
     \<and> t \<in> set (tasks (snd (put_task Number \<lparr>userId = Some b\<rparr> raw_id req_body db)))
     \<and> t \<in> set (tasks (snd (delete_task Number \<lparr>userId = Some b\<rparr> raw_id db)))
     \<and> get_tasks \<lparr>userId = Some b\<rparr> db =
         get_tasks \<lparr>userId = Some b\<rparr>
           (db\<lparr>tasks := filter (\<lambda>r. user_id r = Some b) (tasks db)\<rparr>)
     \<and> fst (put_task Number \<lparr>userId = Some b\<rparr> raw_id req_body db) =
         fst (put_task Number \<lparr>userId = Some b\<rparr> raw_id req_body
                (db\<lparr>tasks := filter (\<lambda>r. user_id r = Some b) (tasks db)\<rparr>))
     \<and> fst (delete_task Number \<lparr>userId = Some b\<rparr> raw_id db) =
         fst (delete_task Number \<lparr>userId = Some b\<rparr> raw_id
                (db\<lparr>tasks := filter (\<lambda>r. user_id r = Some b) (tasks db)\<rparr>))"
proof (intro impI)
  assume A: "t \<in> set (tasks db) \<and> user_id t = Some a \<and> a \<noteq> b"
  then have t: "t \<in> set (tasks db)" and foreign: "user_id t \<noteq> Some b" by simp_all
  have 1: "select_tasks (Some b) db = Inr rows \<longrightarrow>
        t \<notin> set rows \<and> (\<forall>r\<in>set rows. user_id r = Some b)"
    using foreign by (auto simp: select_tasks_rows)
  have 2: "update_tasks updates (Some b) n db = Inr (urows, udb) \<longrightarrow>
        t \<in> set (tasks udb) \<and> (\<forall>r\<in>set urows. user_id r = Some b)"
    using update_tasks_keeps_foreign [of updates b n db urows udb t] t foreign by blast
  have 3: "delete_tasks (Some b) n db = Inr (drows, ddb) \<longrightarrow>
        t \<in> set (tasks ddb) \<and> (\<forall>r\<in>set drows. user_id r = Some b)"
    using delete_tasks_keeps_foreign [of b n db drows ddb t] t foreign by blast
  have 4: "t \<in> set (tasks (snd (put_task Number \<lparr>userId = Some b\<rparr> raw_id req_body db)))"
    using t foreign by (rule put_task_keeps_foreign)
  have 5: "t \<in> set (tasks (snd (delete_task Number \<lparr>userId = Some b\<rparr> raw_id db)))"
    using t foreign by (rule delete_task_keeps_foreign)
  from 1 2 3 4 5 show "(select_tasks (Some b) db = Inr rows \<longrightarrow>
        t \<notin> set rows \<and> (\<forall>r\<in>set rows. user_id r = Some b))
     \<and> (update_tasks updates (Some b) n db = Inr (urows, udb) \<longrightarrow>
        t \<in> set (tasks udb) \<and> (\<forall>r\<in>set urows. user_id r = Some b))
     \<and> (delete_tasks (Some b) n db = Inr (drows, ddb) \<longrightarrow>
        t \<in> set (tasks ddb) \<and> (\<forall>r\<in>set drows. user_id r = Some b))
     \<and> t \<in> set (tasks (snd (put_task Number \<lparr>userId = Some b\<rparr> raw_id req_body db)))
     \<and> t \<in> set (tasks (snd (delete_task Number \<lparr>userId = Some b\<rparr> raw_id db)))
     \<and> get_tasks \<lparr>userId = Some b\<rparr> db =
         get_tasks \<lparr>userId = Some b\<rparr>
           (db\<lparr>tasks := filter (\<lambda>r. user_id r = Some b) (tasks db)\<rparr>)
     \<and> fst (put_task Number \<lparr>userId = Some b\<rparr> raw_id req_body db) =
         fst (put_task Number \<lparr>userId = Some b\<rparr> raw_id req_body
                (db\<lparr>tasks := filter (\<lambda>r. user_id r = Some b) (tasks db)\<rparr>))
     \<and> fst (delete_task Number \<lparr>userId = Some b\<rparr> raw_id db) =
         fst (delete_task Number \<lparr>userId = Some b\<rparr> raw_id
                (db\<lparr>tasks := filter (\<lambda>r. user_id r = Some b) (tasks db)\<rparr>))"
    by (simp only: get_tasks_own_rows put_task_own_rows delete_task_own_rows simp_thms)
qed

theorem ownership_isolation_witness:
  "walk_dog \<in> set (tasks sample_db) \<and> user_id walk_dog = Some 2 \<and> (2::int) \<noteq> 1
   \<and> select_tasks (Some 1) sample_db =
       Inr [\<lparr>id_col = 3, user_id = Some 1, title = ''file taxes'', description = None,
              completed = True, created_at = 30\<rparr>,
            \<lparr>id_col = 1, user_id = Some 1, title = ''buy milk'', description = None,
              completed = False, created_at = 10\<rparr>]
   \<and> walk_dog \<notin> set [\<lparr>id_col = 3, user_id = Some 1, title = ''file taxes'',
                         description = None, completed = True, created_at = 30\<rparr>,
                       \<lparr>id_col = 1, user_id = Some 1, title = ''buy milk'',
                         description = None, completed = False, created_at = 10\<rparr>]
   \<and> walk_dog \<in> set (tasks (snd (put_task sample_Number \<lparr>userId = Some 1\<rparr> ''2''
                                      (JObj [(''completed'', JBool True)]) sample_db)))
   \<and> walk_dog \<in> set (tasks (snd (delete_task sample_Number \<lparr>userId = Some 1\<rparr> ''2''
                                      sample_db)))"
proof -
  have H: "walk_dog \<in> set (tasks sample_db) \<and> user_id walk_dog = Some 2 \<and> (2::int) \<noteq> 1"
    by (simp add: walk_dog_def sample_db_def)
  have S: "select_tasks (Some 1) sample_db =
       Inr [\<lparr>id_col = 3, user_id = Some 1, title = ''file taxes'', description = None,
              completed = True, created_at = 30\<rparr>,
            \<lparr>id_col = 1, user_id = Some 1, title = ''buy milk'', description = None,
              completed = False, created_at = 10\<rparr>]"
    by (simp add: select_tasks_def sample_db_def sql_eq_def order_by_created_at_desc_def)
  note T = ownership_isolation [where t = walk_dog and db = sample_db and a = 2 and b = 1
      and rows = "[\<lparr>id_col = 3, user_id = Some 1, title = ''file taxes'', description = None,
                     completed = True, created_at = 30\<rparr>,
                   \<lparr>id_col = 1, user_id = Some 1, title = ''buy milk'', description = None,
                     completed = False, created_at = 10\<rparr>]"
      and Number = sample_Number and raw_id = "''2''"
      and req_body = "JObj [(''completed'', JBool True)]", THEN mp, OF H]
  from T [THEN conjunct1] S
  have 1: "walk_dog \<notin> set [\<lparr>id_col = 3, user_id = Some 1, title = ''file taxes'',
                         description = None, completed = True, created_at = 30\<rparr>,
                       \<lparr>id_col = 1, user_id = Some 1, title = ''buy milk'',
                         description = None, completed = False, created_at = 10\<rparr>]"
    by blast
  from T
  have 2: "walk_dog \<in> set (tasks (snd (put_task sample_Number \<lparr>userId = Some 1\<rparr> ''2''
                                      (JObj [(''completed'', JBool True)]) sample_db)))"
    and 3: "walk_dog \<in> set (tasks (snd (delete_task sample_Number \<lparr>userId = Some 1\<rparr> ''2''
                                      sample_db)))"
    by blast+
  from H S 1 2 3 show ?thesis by (intro conjI) simp_all
qed

end
